theory Spec2Isabelle
  imports Complex_Main
begin

section \<open>Python values, exceptions and external calls\<close>

text \<open>
  The two classes under study, \<^verbatim>\<open>EigenmodeSim\<close> (sim_eigenmode.py) and
  \<^verbatim>\<open>QTreeView_Base\<close> (tree_view_base.py), compute nothing themselves: every statement
  either moves a value between attributes of \<^verbatim>\<open>self\<close> or calls an object the repository
  does not implement (the renderer, matplotlib, pyEPR, Qt, inherited methods). The model
  therefore keeps the attributes as a record and every external call as an entry of a
  trace, whose result (a value or a raised exception) is given by an environment function
  of the calls made so far. An external call returns or raises and is recorded; it is
  taken not to write the attributes of the instance or of the class behind the caller's
  back.

  \<open>PObj\<close> is a handle of an external object (a figure, an axis, a DataFrame, an enum
  member of a library); what a method of such an object does is the environment's
  business. \<open>PMethod\<close> is a bound method of \<^verbatim>\<open>self\<close>. A Python float literal is kept as
  the rational its decimal text denotes.
\<close>

datatype pyval =
    PNone
  | PBool bool
  | PInt int
  | PFloat rat
  | PStr string
  | PTuple "pyval list"
  | PList "pyval list"
  | PDict "(string \<times> pyval) list"
  | PObj string
  | PMethod string

type_synonym kwargs = "(string \<times> pyval) list"

datatype error =
    TypeError
  | ValueError
  | AttributeError
  | IndexError
  | KeyError
  | Raised string

datatype target =
    Renderer
  | Inherited
  | Module string
  | Object pyval

record event =
  ev_target :: target
  ev_method :: string
  ev_args :: "pyval list"
  ev_kwargs :: kwargs
  ev_outcome :: "error + pyval"

type_synonym env = "event list \<Rightarrow> target \<Rightarrow> string \<Rightarrow> pyval list \<Rightarrow> kwargs \<Rightarrow> error + pyval"

text \<open>
  The world outside one instance: the class attribute \<^verbatim>\<open>EigenmodeSim.default_setup\<close>
  (one dictionary shared by all instances) and the trace of external calls.
\<close>

record world =
  default_setup :: kwargs
  trace :: "event list"

type_synonym ('s, 'a) py = "world \<times> 's \<Rightarrow> (error + 'a) \<times> world \<times> 's"

definition py_return :: "'a \<Rightarrow> ('s, 'a) py" where
  "py_return x = (\<lambda>s. (Inr x, s))"

definition py_raise :: "error \<Rightarrow> ('s, 'a) py" where
  "py_raise e = (\<lambda>s. (Inl e, s))"

definition py_bind :: "('s, 'a) py \<Rightarrow> ('a \<Rightarrow> ('s, 'b) py) \<Rightarrow> ('s, 'b) py" where
  "py_bind m f = (\<lambda>s. case m s of (Inl e, s') \<Rightarrow> (Inl e, s') | (Inr x, s') \<Rightarrow> f x s')"

definition call :: "env \<Rightarrow> target \<Rightarrow> string \<Rightarrow> pyval list \<Rightarrow> kwargs \<Rightarrow> ('s, pyval) py" where
  "call env t m a k = (\<lambda>(w, self).
     let r = env (trace w) t m a k
     in (r, w\<lparr>trace := trace w @
           [\<lparr>ev_target = t, ev_method = m, ev_args = a, ev_kwargs = k, ev_outcome = r\<rparr>]\<rparr>, self))"

text \<open>\<^verbatim>\<open>recv.m(*a, **k)\<close>: the built-in values have none of the methods the two classes
  call (\<^verbatim>\<open>add_subplot\<close>, \<^verbatim>\<open>twinx\<close>, \<^verbatim>\<open>tight_layout\<close>, \<^verbatim>\<open>iloc\<close>, \<^verbatim>\<open>show\<close>,
  \<^verbatim>\<open>columnCount\<close>), so the attribute lookup fails on them.\<close>

definition call_method :: "env \<Rightarrow> pyval \<Rightarrow> string \<Rightarrow> pyval list \<Rightarrow> kwargs \<Rightarrow> ('s, pyval) py" where
  "call_method env recv m a k =
     (case recv of PObj h \<Rightarrow> call env (Object recv) m a k | _ \<Rightarrow> py_raise AttributeError)"

text \<open>\<^verbatim>\<open>v + s\<close> for a string \<open>s\<close>.\<close>

definition py_add_str :: "env \<Rightarrow> pyval \<Rightarrow> string \<Rightarrow> ('s, pyval) py" where
  "py_add_str env v s =
     (case v of
        PStr a \<Rightarrow> py_return (PStr (a @ s))
      | PObj h \<Rightarrow> call env (Object v) ''__add__'' [PStr s] []
      | _ \<Rightarrow> py_raise TypeError)"

text \<open>Truth value of \<^verbatim>\<open>v\<close>, as \<^verbatim>\<open>not v\<close> and \<^verbatim>\<open>if v\<close> take it.\<close>

definition py_truthy :: "env \<Rightarrow> pyval \<Rightarrow> ('s, bool) py" where
  "py_truthy env v =
     (case v of
        PNone \<Rightarrow> py_return False
      | PBool b \<Rightarrow> py_return b
      | PInt i \<Rightarrow> py_return (i \<noteq> 0)
      | PFloat r \<Rightarrow> py_return (r \<noteq> 0)
      | PStr s \<Rightarrow> py_return (s \<noteq> [])
      | PTuple xs \<Rightarrow> py_return (xs \<noteq> [])
      | PList xs \<Rightarrow> py_return (xs \<noteq> [])
      | PDict kv \<Rightarrow> py_return (kv \<noteq> [])
      | PObj h \<Rightarrow> py_bind (call env (Object v) ''__bool__'' [] [])
                    (\<lambda>r. case r of PBool b \<Rightarrow> py_return b | _ \<Rightarrow> py_raise TypeError)
      | PMethod m \<Rightarrow> py_return True)"

text \<open>The items \<^verbatim>\<open>iter(v)\<close> yields; an external object lists its own.\<close>

definition py_iter :: "env \<Rightarrow> pyval \<Rightarrow> ('s, pyval list) py" where
  "py_iter env v =
     (case v of
        PTuple xs \<Rightarrow> py_return xs
      | PList xs \<Rightarrow> py_return xs
      | PStr s \<Rightarrow> py_return (map (\<lambda>c. PStr [c]) s)
      | PDict kv \<Rightarrow> py_return (map (\<lambda>p. PStr (fst p)) kv)
      | PObj h \<Rightarrow> py_bind (call env (Object v) ''__iter__'' [] [])
                    (\<lambda>r. case r of PTuple xs \<Rightarrow> py_return xs | PList xs \<Rightarrow> py_return xs
                                   | _ \<Rightarrow> py_raise TypeError)
      | _ \<Rightarrow> py_raise TypeError)"

text \<open>\<^verbatim>\<open>a, b = v\<close>.\<close>

definition unpack2 :: "env \<Rightarrow> pyval \<Rightarrow> ('s, pyval \<times> pyval) py" where
  "unpack2 env v =
     py_bind (py_iter env v)
       (\<lambda>xs. case xs of [a, b] \<Rightarrow> py_return (a, b) | _ \<Rightarrow> py_raise ValueError)"

text \<open>\<^verbatim>\<open>v[i]\<close> for an integer \<open>i\<close>; negative indices count from the end.\<close>

definition seq_index :: "'a list \<Rightarrow> int \<Rightarrow> 'a option" where
  "seq_index xs i =
     (let n = int (length xs); j = (if i < 0 then n + i else i)
      in if 0 \<le> j \<and> j < n then Some (xs ! nat j) else None)"

definition py_getitem_int :: "env \<Rightarrow> pyval \<Rightarrow> int \<Rightarrow> ('s, pyval) py" where
  "py_getitem_int env v i =
     (case v of
        PTuple xs \<Rightarrow> (case seq_index xs i of Some x \<Rightarrow> py_return x | None \<Rightarrow> py_raise IndexError)
      | PList xs \<Rightarrow> (case seq_index xs i of Some x \<Rightarrow> py_return x | None \<Rightarrow> py_raise IndexError)
      | PStr s \<Rightarrow> (case seq_index s i of Some c \<Rightarrow> py_return (PStr [c]) | None \<Rightarrow> py_raise IndexError)
      | PDict kv \<Rightarrow> py_raise KeyError
      | PObj h \<Rightarrow> call env (Object v) ''__getitem__'' [PInt i] []
      | _ \<Rightarrow> py_raise TypeError)"

text \<open>Dictionaries: \<^verbatim>\<open>k in d\<close> is \<open>map_of d k \<noteq> None\<close>, \<^verbatim>\<open>d[k]\<close> is \<open>map_of d k\<close>,
  \<^verbatim>\<open>del d[k]\<close> is \<open>py_del k d\<close>.\<close>

definition py_del :: "string \<Rightarrow> kwargs \<Rightarrow> kwargs" where
  "py_del k d = filter (\<lambda>p. fst p \<noteq> k) d"

text \<open>\<^verbatim>\<open>**v\<close>: the keyword arguments a mapping unpacks to; an external mapping lists its
  own items.\<close>

definition py_mapping :: "env \<Rightarrow> pyval \<Rightarrow> ('s, kwargs) py" where
  "py_mapping env v =
     (case v of
        PDict kv \<Rightarrow> py_return kv
      | PObj h \<Rightarrow> py_bind (call env (Object v) ''keys'' [] [])
                    (\<lambda>r. case r of PDict kv \<Rightarrow> py_return kv | _ \<Rightarrow> py_raise TypeError)
      | _ \<Rightarrow> py_raise TypeError)"

definition py_get :: "('s \<Rightarrow> 'a) \<Rightarrow> ('s, 'a) py" where
  "py_get f = (\<lambda>(w, self). (Inr (f self), w, self))"

definition py_modify :: "('s \<Rightarrow> 's) \<Rightarrow> ('s, pyval) py" where
  "py_modify g = (\<lambda>(w, self). (Inr PNone, w, g self))"

text \<open>The events a computation appends to the trace when run from state \<open>s\<close>.\<close>

definition emitted :: "('s, 'a) py \<Rightarrow> world \<times> 's \<Rightarrow> event list" where
  "emitted m s = drop (length (trace (fst s))) (trace (fst (snd (m s))))"

section \<open>sim_eigenmode.py: class EigenmodeSim\<close>

text \<open>The class attribute, as the class body builds it (lines 43 to 52).\<close>

definition EigenmodeSim_default_setup :: kwargs where
  "EigenmodeSim_default_setup =
     [(''sim'', PDict
        [(''name'', PStr ''Setup''),
         (''min_freq_ghz'', PInt 1),
         (''n_modes'', PInt 1),
         (''max_delta_f'', PFloat (5 / 10)),
         (''max_passes'', PInt 10),
         (''min_passes'', PInt 1),
         (''min_converged'', PInt 1),
         (''pct_refinement'', PInt 30),
         (''basis_order'', PInt 1),
         (''vars'', PDict [(''Lj'', PStr ''10 nH''), (''Cj'', PStr ''0 fF'')])])]"

text \<open>The world once the module has been imported and nothing has been called.\<close>

definition module_loaded :: world where
  "module_loaded = \<lparr>default_setup = EigenmodeSim_default_setup, trace = []\<rparr>"

text \<open>
  The attributes. \<^verbatim>\<open>design\<close>, \<^verbatim>\<open>renderer_name\<close> and \<^verbatim>\<open>setup\<close> belong to the base
  class \<^verbatim>\<open>QAnalysisRenderer\<close>, whose file is not among the sources; of a design only
  the \<^verbatim>\<open>name\<close> is read. \<^verbatim>\<open>self.renderer\<close> is the external renderer: calls on it are
  events with target \<open>Renderer\<close>. The inherited members \<^verbatim>\<open>renderer_initialized\<close> and
  \<^verbatim>\<open>_initialize_renderer\<close> are not among the sources either: they are events with
  target \<open>Inherited\<close>, answered by the environment. A leading underscore of the source
  is written \<open>u_\<close>, and the attribute \<^verbatim>\<open>setup\<close> is the field \<open>the_setup\<close>.
\<close>

record QDesign =
  name :: string

record QAnalysisRenderer =
  design :: QDesign
  renderer_name :: string
  the_setup :: kwargs

record EigenmodeSim = QAnalysisRenderer +
  setup_name :: pyval
  u_convergence_t :: pyval
  u_convergence_f :: pyval

type_synonym 'a sim = "(EigenmodeSim, 'a) py"

type_synonym super_init = "QDesign \<Rightarrow> string \<Rightarrow> world \<Rightarrow> (error + QAnalysisRenderer) \<times> world"

text \<open>\<^verbatim>\<open>__init__(self, design, renderer_name='hfss')\<close>, lines 55 to 70. The constructor of
  the base class is a parameter.\<close>

definition EigenmodeSim_init ::
    "super_init \<Rightarrow> QDesign \<Rightarrow> string option \<Rightarrow> world \<Rightarrow> (error + EigenmodeSim) \<times> world" where
  "EigenmodeSim_init base_init d rn w =
     (case base_init d (case rn of None \<Rightarrow> ''hfss'' | Some r \<Rightarrow> r) w of
        (Inl e, w') \<Rightarrow> (Inl e, w')
      | (Inr b, w') \<Rightarrow>
          (Inr \<lparr>design = design b, renderer_name = renderer_name b, the_setup = the_setup b,
                setup_name = PNone, u_convergence_t = PNone, u_convergence_f = PNone\<rparr>, w'))"

text \<open>Modelled from the spec: \<^verbatim>\<open>QAnalysisRenderer.__init__\<close>, whose source file is
  missing. The spec says that instantiating a wrapper class does not raise and that the
  default dictionaries are static, with overrides at call time only: so the constructor
  keeps the design and the renderer name, starts the instance's setup from the class
  defaults, calls nothing external and leaves the world as it is.\<close>

definition QAnalysisRenderer_init :: super_init where
  "QAnalysisRenderer_init d rn w =
     (Inr \<lparr>design = d, renderer_name = rn, the_setup = default_setup w\<rparr>, w)"

text \<open>The properties, lines 149 to 183.\<close>

definition convergence_f :: "pyval sim" where
  "convergence_f = py_get u_convergence_f"

definition convergence_f_setter :: "pyval \<Rightarrow> pyval sim" where
  "convergence_f_setter conv = py_modify (\<lambda>self. self\<lparr>u_convergence_f := conv\<rparr>)"

definition convergence_t :: "pyval sim" where
  "convergence_t = py_get u_convergence_t"

definition convergence_t_setter :: "pyval \<Rightarrow> pyval sim" where
  "convergence_t_setter conv = py_modify (\<lambda>self. self\<lparr>u_convergence_t := conv\<rparr>)"

text \<open>\<^verbatim>\<open>_render(self, **design_selection)\<close>, lines 72 to 89. A keyword given twice in a
  call (\<^verbatim>\<open>solution_type\<close>) is a TypeError at the call site.\<close>

definition u_render :: "env \<Rightarrow> kwargs \<Rightarrow> pyval sim" where
  "u_render env design_selection =
     py_bind (py_get (\<lambda>self. PStr (name (design self)))) (\<lambda>base_name.
     let (base_name, design_selection) =
           (case map_of design_selection ''name'' of
              Some v \<Rightarrow>
                if v \<noteq> PNone then (v, py_del ''name'' design_selection)
                else (base_name, design_selection)
            | None \<Rightarrow> (base_name, design_selection))
     in py_bind (py_add_str env base_name ''_'') (\<lambda>t.
        py_bind (py_get renderer_name) (\<lambda>rn.
        py_bind (py_add_str env t rn) (\<lambda>design_name.
        if map_of design_selection ''solution_type'' \<noteq> None then py_raise TypeError
        else call env Renderer ''execute_design'' [design_name]
               ((''solution_type'', PStr ''eigenmode'') # design_selection)))))"

text \<open>\<^verbatim>\<open>_analyze(self)\<close>, lines 91 to 100. \<^verbatim>\<open>self.setup.sim\<close> reads the key \<^verbatim>\<open>sim\<close> of
  the setup; the repository's \<^verbatim>\<open>Dict\<close> answers a missing key with an empty \<^verbatim>\<open>Dict\<close>.\<close>

definition u_analyze :: "env \<Rightarrow> pyval sim" where
  "u_analyze env =
     py_bind (py_get the_setup) (\<lambda>st.
     py_bind (case map_of st ''sim'' of None \<Rightarrow> py_return [] | Some v \<Rightarrow> py_mapping env v) (\<lambda>kw.
     py_bind (call env Renderer ''initialize_eigenmode'' [] kw) (\<lambda>r.
     py_bind (py_modify (\<lambda>self. self\<lparr>setup_name := r\<rparr>)) (\<lambda>_.
     py_bind (py_get setup_name) (\<lambda>sn.
     py_bind (call env Renderer ''analyze_setup'' [sn] []) (\<lambda>_.
     py_bind (call env Renderer ''get_convergences'' [] []) (\<lambda>r.
     py_bind (unpack2 env r) (\<lambda>(a, b).
     py_bind (convergence_t_setter a) (\<lambda>_.
     convergence_f_setter b)))))))))"

text \<open>\<^verbatim>\<open>run_sim\<close>, lines 102 to 147. Every parameter has the default the signature
  gives it when the caller leaves it out (\<^verbatim>\<open>None\<close>, and \<^verbatim>\<open>True\<close> for
  \<^verbatim>\<open>box_plus_buffer\<close>).\<close>

definition run_sim ::
    "env \<Rightarrow> pyval \<Rightarrow> pyval \<Rightarrow> pyval \<Rightarrow> pyval \<Rightarrow> pyval \<Rightarrow> pyval \<Rightarrow> pyval \<Rightarrow> pyval sim" where
  "run_sim env nm components open_terminations port_list jj_to_port ignored_jjs box_plus_buffer =
     py_bind (call env Inherited ''renderer_initialized'' [] []) (\<lambda>ini.
     py_bind (py_truthy env ini) (\<lambda>b.
     py_bind (if \<not> b then call env Inherited ''_initialize_renderer'' [] [] else py_return PNone) (\<lambda>_.
     py_bind (u_render env
                [(''name'', nm),
                 (''selection'', components),
                 (''open_pins'', open_terminations),
                 (''port_list'', port_list),
                 (''jj_to_port'', jj_to_port),
                 (''ignored_jjs'', ignored_jjs),
                 (''box_plus_buffer'', box_plus_buffer)]) (\<lambda>renderer_design_name.
     py_bind (u_analyze env) (\<lambda>_.
     py_bind (py_get setup_name) (\<lambda>sn.
     py_return (PTuple [renderer_design_name, sn])))))))"

text \<open>\<^verbatim>\<open>recompute_convergences(self, variation=None)\<close>, lines 185 to 194.\<close>

definition recompute_convergences :: "env \<Rightarrow> pyval \<Rightarrow> pyval sim" where
  "recompute_convergences env variation =
     py_bind (call env Renderer ''get_convergences'' [variation] []) (\<lambda>r.
     py_bind (unpack2 env r) (\<lambda>(a, b).
     py_bind (convergence_t_setter a) (\<lambda>_.
     convergence_f_setter b)))"

text \<open>\<^verbatim>\<open>plot_convergences\<close>, lines 196 to 236. \<^verbatim>\<open>xs[i]\<close> on a list of the method's own,
  \<^verbatim>\<open>df.iloc[:, k]\<close> (the attribute \<^verbatim>\<open>iloc\<close>, then its item at \<^verbatim>\<open>(slice(None), k)\<close>:
  a built-in value takes no such index, a sequence wants an integer or a slice and a
  dictionary a hashable key) and the list comprehension over \<^verbatim>\<open>range(3)\<close> come first.\<close>

definition py_index :: "pyval list \<Rightarrow> int \<Rightarrow> ('s, pyval) py" where
  "py_index xs i = (case seq_index xs i of Some x \<Rightarrow> py_return x | None \<Rightarrow> py_raise IndexError)"

definition iloc_column :: "env \<Rightarrow> pyval \<Rightarrow> int \<Rightarrow> ('s, pyval) py" where
  "iloc_column env df k =
     py_bind (call_method env df ''iloc'' [] []) (\<lambda>ix.
     case ix of
       PObj h \<Rightarrow> call env (Object ix) ''__getitem__''
                   [PTuple [PObj ''slice(None, None, None)'', PInt k]] []
     | _ \<Rightarrow> py_raise TypeError)"

fun add_subplots :: "env \<Rightarrow> pyval \<Rightarrow> pyval \<Rightarrow> int list \<Rightarrow> ('s, pyval list) py" where
  "add_subplots env fig gs [] = py_return []"
| "add_subplots env fig gs (i # rest) =
     py_bind (py_getitem_int env gs i) (\<lambda>g.
     py_bind (call_method env fig ''add_subplot'' [g] []) (\<lambda>a.
     py_bind (add_subplots env fig gs rest) (\<lambda>axs.
     py_return (a # axs))))"

definition plot_convergences :: "env \<Rightarrow> pyval \<Rightarrow> pyval \<Rightarrow> pyval \<Rightarrow> pyval \<Rightarrow> pyval sim" where
  "plot_convergences env conv_t conv_f fig display =
     py_bind (if conv_t = PNone then convergence_t else py_return conv_t) (\<lambda>conv_t.
     py_bind (if conv_f = PNone then convergence_f else py_return conv_f) (\<lambda>conv_f.
     if fig = PNone then
       py_bind (call env (Module ''matplotlib.pyplot'') ''figure'' []
                  [(''figsize'', PTuple [PInt 11, PFloat 3])]) (\<lambda>fig.
       py_bind (call env (Module ''matplotlib.gridspec'') ''GridSpec'' [PInt 1, PInt 3]
                  [(''width_ratios'', PList [PFloat (12 / 10), PFloat (15 / 10), PInt 1])]) (\<lambda>gs.
       py_bind (add_subplots env fig gs [0, 1, 2]) (\<lambda>axs.
       py_bind (py_index axs 1) (\<lambda>a.
       py_bind (call_method env a ''twinx'' [] []) (\<lambda>ax0t.
       py_bind (py_index axs 0) (\<lambda>a.
       py_bind (call env (Module ''pyEPR.reports'') ''plot_convergence_f_vspass''
                  [a, conv_f] []) (\<lambda>_.
       py_bind (py_index axs 1) (\<lambda>a.
       py_bind (iloc_column env conv_t 1) (\<lambda>c.
       py_bind (call env (Module ''pyEPR.reports'') ''plot_convergence_max_df''
                  [a, c] []) (\<lambda>_.
       py_bind (iloc_column env conv_t 0) (\<lambda>c.
       py_bind (call env (Module ''pyEPR.reports'') ''plot_convergence_solved_elem''
                  [ax0t, c] []) (\<lambda>_.
       py_bind (py_index axs 2) (\<lambda>a.
       py_bind (iloc_column env conv_t 1) (\<lambda>c.
       py_bind (iloc_column env conv_t 0) (\<lambda>c'.
       py_bind (call env (Module ''pyEPR.reports'') ''plot_convergence_maxdf_vs_sol''
                  [a, c, c'] []) (\<lambda>_.
       py_bind (call_method env fig ''tight_layout'' [] [(''w_pad'', PFloat (1 / 10))]) (\<lambda>_.
       py_return PNone)))))))))))))))))
     else py_return PNone))"

text \<open>\<^verbatim>\<open>plot_fields(self, object_name, eigenmode=1, *args, **kwargs)\<close>, lines 240 to 254,
  and \<^verbatim>\<open>clear_fields(self, names=None)\<close>, lines 256 to 263.\<close>

definition plot_fields :: "env \<Rightarrow> pyval \<Rightarrow> pyval \<Rightarrow> pyval list \<Rightarrow> kwargs \<Rightarrow> pyval sim" where
  "plot_fields env object_name eigenmode args kwargs =
     py_bind (py_get setup_name) (\<lambda>sn.
     py_bind (call env Renderer ''set_mode'' [eigenmode, sn] []) (\<lambda>_.
     if map_of kwargs ''object_name'' \<noteq> None then py_raise TypeError
     else call env Renderer ''plot_fields'' args (kwargs @ [(''object_name'', object_name)])))"

definition clear_fields :: "env \<Rightarrow> pyval \<Rightarrow> pyval sim" where
  "clear_fields env names = call env Renderer ''clear_fields'' [names] []"

text \<open>The operations of an instance, and a caller that performs them one after the other,
  going on after an exception as a caller that catches it would.\<close>

datatype op =
    Run_sim pyval pyval pyval pyval pyval pyval pyval
  | Recompute_convergences pyval
  | Plot_convergences pyval pyval pyval pyval
  | Plot_fields pyval pyval "pyval list" kwargs
  | Clear_fields pyval
  | Get_convergence_f
  | Set_convergence_f pyval
  | Get_convergence_t
  | Set_convergence_t pyval
  | Render kwargs
  | Analyze

fun exec_op :: "env \<Rightarrow> op \<Rightarrow> pyval sim" where
  "exec_op env (Run_sim a b c d e f g) = run_sim env a b c d e f g"
| "exec_op env (Recompute_convergences v) = recompute_convergences env v"
| "exec_op env (Plot_convergences a b c d) = plot_convergences env a b c d"
| "exec_op env (Plot_fields a b c d) = plot_fields env a b c d"
| "exec_op env (Clear_fields v) = clear_fields env v"
| "exec_op env Get_convergence_f = convergence_f"
| "exec_op env (Set_convergence_f v) = convergence_f_setter v"
| "exec_op env Get_convergence_t = convergence_t"
| "exec_op env (Set_convergence_t v) = convergence_t_setter v"
| "exec_op env (Render kw) = u_render env kw"
| "exec_op env Analyze = u_analyze env"

datatype stmt =
    New QDesign "string option"
  | Do op

fun exec_stmt :: "super_init \<Rightarrow> env \<Rightarrow> stmt \<Rightarrow> world \<times> EigenmodeSim \<Rightarrow> world \<times> EigenmodeSim" where
  "exec_stmt base_init env (New d rn) (w, self) =
     (case EigenmodeSim_init base_init d rn w of
        (Inl e, w') \<Rightarrow> (w', self)
      | (Inr obj, w') \<Rightarrow> (w', obj))"
| "exec_stmt base_init env (Do x) s = snd (exec_op env x s)"

fun exec_stmts :: "super_init \<Rightarrow> env \<Rightarrow> stmt list \<Rightarrow> world \<times> EigenmodeSim \<Rightarrow> world \<times> EigenmodeSim" where
  "exec_stmts base_init env [] s = s"
| "exec_stmts base_init env (x # xs) s = exec_stmts base_init env xs (exec_stmt base_init env x s)"

section \<open>tree_view_base.py: class QTreeView_Base\<close>

text \<open>
  The class has no attribute of its own: an instance is the Qt widget it extends, and
  each method of \<^verbatim>\<open>QTreeView\<close> called on \<^verbatim>\<open>self\<close> is an event with target \<open>Inherited\<close>.
  \<^verbatim>\<open>max_width\<close> is an integer, as its annotation says.
\<close>

type_synonym 'a tree = "(unit, 'a) py"

definition style_sheet_text :: string where
  "style_sheet_text =
     [CHR 0x0A] @ ''QTreeView::branch {  border-image: url(none.png); }'' @ [CHR 0x0A] @
     replicate 8 (CHR '' '')"

definition QTreeView_Base_init :: "env \<Rightarrow> pyval \<Rightarrow> pyval tree" where
  "QTreeView_Base_init env parent =
     py_bind (call env Inherited ''QTreeView.__init__'' [parent] []) (\<lambda>_.
     py_bind (call env (Module ''PyQt5.QtCore.QTimer'') ''singleShot''
                [PInt 200, PMethod ''style_me''] []) (\<lambda>_.
     py_bind (call env Inherited ''expanded'' [] []) (\<lambda>sig.
     py_bind (call_method env sig ''connect'' [PMethod ''resize_on_expand''] []) (\<lambda>_.
     py_return PNone))))"

definition style_me :: "env \<Rightarrow> pyval tree" where
  "style_me env =
     py_bind (call env Inherited ''header'' [] []) (\<lambda>h.
     py_bind (call_method env h ''show'' [] []) (\<lambda>_.
     py_bind (call env Inherited ''setAutoScroll'' [PBool False] []) (\<lambda>_.
     py_bind (call env Inherited ''setVerticalScrollMode''
                [PObj ''QAbstractItemView.ScrollPerPixel''] []) (\<lambda>_.
     py_bind (call env Inherited ''setHorizontalScrollMode''
                [PObj ''QAbstractItemView.ScrollPerPixel''] []) (\<lambda>_.
     py_bind (call env Inherited ''setStyleSheet'' [PStr style_sheet_text] []) (\<lambda>_.
     py_return PNone))))))"

text \<open>\<^verbatim>\<open>range(v)\<close> and \<^verbatim>\<open>v > m\<close> for an integer \<open>m\<close>.\<close>

definition py_range :: "env \<Rightarrow> pyval \<Rightarrow> ('s, int list) py" where
  "py_range env v =
     (case v of
        PInt n \<Rightarrow> py_return [0 .. n - 1]
      | PBool b \<Rightarrow> py_return (if b then [0] else [])
      | PObj h \<Rightarrow> py_bind (call env (Object v) ''__index__'' [] [])
                    (\<lambda>r. case r of PInt n \<Rightarrow> py_return [0 .. n - 1] | _ \<Rightarrow> py_raise TypeError)
      | _ \<Rightarrow> py_raise TypeError)"

definition py_gt_int :: "env \<Rightarrow> pyval \<Rightarrow> int \<Rightarrow> ('s, bool) py" where
  "py_gt_int env v m =
     (case v of
        PInt n \<Rightarrow> py_return (n > m)
      | PBool b \<Rightarrow> py_return ((if b then 1 else 0) > m)
      | PFloat r \<Rightarrow> py_return (r > of_int m)
      | PObj h \<Rightarrow> py_bind (call env (Object v) ''__gt__'' [PInt m] []) (py_truthy env)
      | _ \<Rightarrow> py_raise TypeError)"

fun resize_columns :: "env \<Rightarrow> int \<Rightarrow> int list \<Rightarrow> pyval tree" where
  "resize_columns env max_width [] = py_return PNone"
| "resize_columns env max_width (i # rest) =
     py_bind (call env Inherited ''resizeColumnToContents'' [PInt i] []) (\<lambda>_.
     py_bind (call env Inherited ''columnWidth'' [PInt i] []) (\<lambda>width.
     py_bind (py_gt_int env width max_width) (\<lambda>wider.
     py_bind (if wider then call env Inherited ''setColumnWidth'' [PInt i, PInt max_width] []
              else py_return PNone) (\<lambda>_.
     resize_columns env max_width rest))))"

definition autoresize_columns :: "env \<Rightarrow> int \<Rightarrow> pyval tree" where
  "autoresize_columns env max_width =
     py_bind (call env Inherited ''model'' [] []) (\<lambda>m.
     py_bind (call_method env m ''columnCount'' [PNone] []) (\<lambda>columns.
     py_bind (py_range env columns) (\<lambda>cols.
     resize_columns env max_width cols)))"

definition resize_on_expand :: "env \<Rightarrow> pyval tree" where
  "resize_on_expand env =
     py_bind (call env Inherited ''resizeColumnToContents'' [PInt 0] []) (\<lambda>_.
     py_return PNone)"

text \<open>What the event loop does with a callback the class has registered (the timer's, the
  signal's): it calls the bound method.\<close>

definition invoke_bound :: "env \<Rightarrow> pyval \<Rightarrow> pyval tree" where
  "invoke_bound env cb =
     (case cb of
        PMethod m \<Rightarrow>
          if m = ''style_me'' then style_me env
          else if m = ''resize_on_expand'' then resize_on_expand env
          else py_raise AttributeError
      | _ \<Rightarrow> py_raise TypeError)"

section \<open>Properties of computations\<close>

text \<open>
  \<open>raised_of\<close> is the exception a result carries, \<open>returned\<close> holds of an external call
  that came back with a value. A list of new events is \<open>faithful\<close> to a result when
  every call but the last returned, and an exception of the last call is the result.
\<close>

definition raised_of :: "error + 'a \<Rightarrow> error option" where
  "raised_of out = (case out of Inl e \<Rightarrow> Some e | Inr x \<Rightarrow> None)"

definition returned :: "event \<Rightarrow> bool" where
  "returned ev = (case ev_outcome ev of Inl e \<Rightarrow> False | Inr x \<Rightarrow> True)"

definition faithful :: "error option \<Rightarrow> event list \<Rightarrow> bool" where
  "faithful r new =
     (list_all returned (butlast new) \<and>
      (new = [] \<or> (case ev_outcome (last new) of Inl e \<Rightarrow> r = Some e | Inr x \<Rightarrow> True)))"

text \<open>
  A computation is \<open>disciplined\<close> for a property \<open>P\<close> of events when, from every state,
  it leaves the class defaults alone, only appends to the trace, appends only events
  with \<open>P\<close>, and is faithful to the exceptions of its external calls.
\<close>

definition disciplined :: "(event \<Rightarrow> bool) \<Rightarrow> ('s, 'a) py \<Rightarrow> bool" where
  "disciplined P m =
     (\<forall>s. default_setup (fst (snd (m s))) = default_setup (fst s) \<and>
          trace (fst (snd (m s))) = trace (fst s) @ emitted m s \<and>
          list_all P (emitted m s) \<and>
          faithful (raised_of (fst (m s))) (emitted m s))"

text \<open>A computation is \<open>quiet\<close> when it changes nothing but the trace, and calls nothing
  on the renderer.\<close>

definition off_renderer :: "event \<Rightarrow> bool" where
  "off_renderer ev = (ev_target ev \<noteq> Renderer)"

definition quiet :: "('s, 'a) py \<Rightarrow> bool" where
  "quiet m =
     (\<forall>w self.
        snd (snd (m (w, self))) = self \<and>
        default_setup (fst (snd (m (w, self)))) = default_setup w \<and>
        (\<exists>new. trace (fst (snd (m (w, self)))) = trace w @ new \<and> list_all off_renderer new))"

text \<open>An event \<open>on_object\<close> is a call of one of the listed methods on an external object.\<close>

definition on_object :: "string list \<Rightarrow> event \<Rightarrow> bool" where
  "on_object ms ev =
     ((case ev_target ev of Object v \<Rightarrow> True | _ \<Rightarrow> False) \<and> ev_method ev \<in> set ms)"

text \<open>The calls an operation makes on the renderer, in order: method and outcome.\<close>

definition renderer_calls :: "event list \<Rightarrow> (string \<times> (error + pyval)) list" where
  "renderer_calls evs =
     map (\<lambda>ev. (ev_method ev, ev_outcome ev)) (filter (\<lambda>ev. ev_target ev = Renderer) evs)"

text \<open>The renderer methods the spec lists, and the ones the class calls.\<close>

definition spec_renderer_api :: "string list" where
  "spec_renderer_api =
     [''execute_design'', ''initialize_eigenmode'', ''analyze_setup'', ''get_convergences'',
      ''set_mode'', ''plot_fields'']"

definition renderer_api :: "string list" where
  "renderer_api = spec_renderer_api @ [''clear_fields'']"

definition in_api :: "string list \<Rightarrow> event \<Rightarrow> bool" where
  "in_api api ev = (ev_target ev = Renderer \<longrightarrow> ev_method ev \<in> set api)"

text \<open>\<^verbatim>\<open>d[k1][k2]\<close> and \<^verbatim>\<open>d[k1][k2][k3]\<close>, as the test of the defaults reads them; \<open>None\<close>
  where Python raises.\<close>

definition item2 :: "kwargs \<Rightarrow> string \<Rightarrow> string \<Rightarrow> pyval option" where
  "item2 d k1 k2 = (case map_of d k1 of Some (PDict kv) \<Rightarrow> map_of kv k2 | _ \<Rightarrow> None)"

definition item3 :: "kwargs \<Rightarrow> string \<Rightarrow> string \<Rightarrow> string \<Rightarrow> pyval option" where
  "item3 d k1 k2 k3 = (case item2 d k1 k2 of Some (PDict kv) \<Rightarrow> map_of kv k3 | _ \<Rightarrow> None)"

definition keys2 :: "kwargs \<Rightarrow> string \<Rightarrow> string list" where
  "keys2 d k1 = (case map_of d k1 of Some (PDict kv) \<Rightarrow> map fst kv | _ \<Rightarrow> [])"

text \<open>The Qt methods \<^verbatim>\<open>QTreeView_Base\<close> calls, by what they do to the widget.\<close>

definition display_methods :: "string list" where
  "display_methods =
     [''header'', ''show'', ''setAutoScroll'', ''setVerticalScrollMode'',
      ''setHorizontalScrollMode'', ''setStyleSheet'']"

definition width_methods :: "string list" where
  "width_methods = [''resizeColumnToContents'', ''setColumnWidth'']"

definition read_methods :: "string list" where
  "read_methods = [''model'', ''columnCount'', ''columnWidth'', ''__index__'', ''__gt__'', ''__bool__'']"

definition method_in :: "string list \<Rightarrow> event \<Rightarrow> bool" where
  "method_in ms ev = (ev_method ev \<in> set ms)"

definition calls_of :: "event list \<Rightarrow> (string \<times> pyval list) list" where
  "calls_of evs = map (\<lambda>ev. (ev_method ev, ev_args ev)) evs"

text \<open>What \<^verbatim>\<open>_render\<close> forwards of its keyword arguments: all of them, but for a \<^verbatim>\<open>name\<close>
  that is not \<^verbatim>\<open>None\<close>. An event is a \<open>render_event\<close> when, if it is a call on the
  renderer, it is \<^verbatim>\<open>execute_design\<close> with the solution type and the forwarded
  keywords.\<close>

definition forwarded :: "kwargs \<Rightarrow> kwargs" where
  "forwarded kw =
     (case map_of kw ''name'' of
        Some v \<Rightarrow> if v \<noteq> PNone then py_del ''name'' kw else kw
      | None \<Rightarrow> kw)"

definition render_event :: "kwargs \<Rightarrow> event \<Rightarrow> bool" where
  "render_event kw ev =
     (ev_target ev = Renderer \<longrightarrow>
        ev_method ev = ''execute_design'' \<and>
        ev_kwargs ev = (''solution_type'', PStr ''eigenmode'') # forwarded kw)"

text \<open>The calls of the constructor of \<^verbatim>\<open>QTreeView_Base\<close>.\<close>

definition init_methods :: "string list" where
  "init_methods = [''QTreeView.__init__'', ''singleShot'', ''expanded'', ''connect'']"

section \<open>Two environments and an instance to run the operations on\<close>

text \<open>
  \<open>env_ok\<close> is a renderer and toolkit where every call returns: \<^verbatim>\<open>execute_design\<close>
  keeps the name it is given, \<^verbatim>\<open>initialize_eigenmode\<close> answers the setup's name,
  \<^verbatim>\<open>get_convergences\<close> a pair of tables, the view has two columns 250 pixels wide, and
  any other call returns an object named after the method. \<open>env_fail\<close> is the same but
  for the solver, which fails in \<^verbatim>\<open>analyze_setup\<close>.
\<close>

definition env_ok :: env where
  "env_ok tr t m a k =
     (if m = ''execute_design'' then (case a of [d] \<Rightarrow> Inr d | _ \<Rightarrow> Inl (Raised ''arguments''))
      else if m = ''initialize_eigenmode'' then
        (case map_of k ''name'' of Some n \<Rightarrow> Inr n | None \<Rightarrow> Inr (PStr ''Setup''))
      else if m = ''get_convergences'' then Inr (PTuple [PObj ''table_t'', PObj ''table_f''])
      else if m = ''renderer_initialized'' then Inr (PBool False)
      else if m = ''columnCount'' then Inr (PInt 2)
      else if m = ''columnWidth'' then Inr (PInt 250)
      else Inr (PObj m))"

definition env_fail :: env where
  "env_fail tr t m a k =
     (if m = ''analyze_setup'' then Inl (Raised ''solver'') else env_ok tr t m a k)"

definition sim0 :: EigenmodeSim where
  "sim0 = \<lparr>design = \<lparr>name = ''chip''\<rparr>, renderer_name = ''hfss'',
           the_setup = EigenmodeSim_default_setup,
           setup_name = PNone, u_convergence_t = PNone, u_convergence_f = PNone\<rparr>"

section \<open>Rules for disciplined computations\<close>

lemma emitted_eq: "m s = (out, s') \<Longrightarrow> trace (fst s') = trace (fst s) @ new \<Longrightarrow> emitted m s = new"
  by (simp add: emitted_def)

lemma disciplinedI:
  assumes "\<And>s out s'. m s = (out, s') \<Longrightarrow>
             default_setup (fst s') = default_setup (fst s) \<and>
             (\<exists>new. trace (fst s') = trace (fst s) @ new \<and> list_all P new \<and>
                    faithful (raised_of out) new)"
  shows "disciplined P m"
  unfolding disciplined_def
proof
  fix s
  obtain out s' where ms: "m s = (out, s')"
    by (metis surj_pair)
  from assms[OF ms] obtain new where
    d: "default_setup (fst s') = default_setup (fst s)" and
    t: "trace (fst s') = trace (fst s) @ new" and
    p: "list_all P new" and f: "faithful (raised_of out) new"
    by blast
  have e: "emitted m s = new"
    using ms t by (rule emitted_eq)
  show "default_setup (fst (snd (m s))) = default_setup (fst s) \<and>
        trace (fst (snd (m s))) = trace (fst s) @ emitted m s \<and>
        list_all P (emitted m s) \<and> faithful (raised_of (fst (m s))) (emitted m s)"
    using d t p f by (simp add: e ms)
qed

lemma disciplinedD:
  assumes "disciplined P m" and "m s = (out, s')"
  shows "default_setup (fst s') = default_setup (fst s)"
    and "trace (fst s') = trace (fst s) @ emitted m s"
    and "list_all P (emitted m s)"
    and "faithful (raised_of out) (emitted m s)"
proof -
  have "default_setup (fst (snd (m s))) = default_setup (fst s) \<and>
        trace (fst (snd (m s))) = trace (fst s) @ emitted m s \<and>
        list_all P (emitted m s) \<and> faithful (raised_of (fst (m s))) (emitted m s)"
    using assms(1) unfolding disciplined_def by (rule spec)
  then show "default_setup (fst s') = default_setup (fst s)"
    and "trace (fst s') = trace (fst s) @ emitted m s"
    and "list_all P (emitted m s)"
    and "faithful (raised_of out) (emitted m s)"
    by (simp_all add: assms(2))
qed

lemma faithful_Nil: "faithful r []"
  by (simp add: faithful_def)

lemma faithful_single: "faithful (raised_of r) [\<lparr>ev_target = t, ev_method = m, ev_args = a, ev_kwargs = k, ev_outcome = r\<rparr>]"
  by (cases r) (simp_all add: faithful_def raised_of_def)

lemma faithful_returned:
  "faithful None new \<Longrightarrow> list_all returned new"
  unfolding faithful_def
  by (cases new rule: rev_cases) (auto simp: returned_def split: sum.splits)

lemma returned_faithful:
  "list_all returned xs \<Longrightarrow> faithful r xs"
  unfolding faithful_def
  by (cases xs rule: rev_cases) (auto simp: returned_def split: sum.splits)

lemma faithful_append:
  assumes "list_all returned xs" and "faithful r ys"
  shows "faithful r (xs @ ys)"
proof (cases ys rule: rev_cases)
  case Nil
  with assms(1) show ?thesis by (simp add: returned_faithful)
next
  case (snoc zs z)
  with assms show ?thesis
    by (simp add: faithful_def butlast_append)
qed

lemma disciplined_return: "disciplined P (py_return x)"
  by (rule disciplinedI) (auto simp: py_return_def faithful_Nil)

lemma disciplined_raise: "disciplined P (py_raise e)"
  by (rule disciplinedI) (auto simp: py_raise_def faithful_Nil)

lemma disciplined_get: "disciplined P (py_get g)"
  by (rule disciplinedI) (auto simp: py_get_def faithful_Nil)

lemma disciplined_modify: "disciplined P (py_modify g)"
  by (rule disciplinedI) (auto simp: py_modify_def faithful_Nil)

lemma disciplined_call:
  assumes "\<And>r. P \<lparr>ev_target = t, ev_method = m, ev_args = a, ev_kwargs = k, ev_outcome = r\<rparr>"
  shows "disciplined P (call env t m a k)"
  by (rule disciplinedI) (auto simp: call_def Let_def assms faithful_single)

lemma disciplined_bind:
  assumes m: "disciplined P m" and f: "\<And>x. disciplined P (f x)"
  shows "disciplined P (py_bind m f)"
proof (rule disciplinedI)
  fix s out s'
  assume run: "py_bind m f s = (out, s')"
  obtain o1 s1 where ms: "m s = (o1, s1)"
    by (metis surj_pair)
  note m1 = disciplinedD[OF m ms]
  show "default_setup (fst s') = default_setup (fst s) \<and>
        (\<exists>new. trace (fst s') = trace (fst s) @ new \<and> list_all P new \<and>
               faithful (raised_of out) new)"
  proof (cases o1)
    case (Inl e)
    with ms run have "out = Inl e" "s' = s1"
      by (simp_all add: py_bind_def)
    with m1 Inl show ?thesis
      by (auto simp: raised_of_def)
  next
    case (Inr x)
    with ms run have fx: "f x s1 = (out, s')"
      by (simp add: py_bind_def)
    note f1 = disciplinedD[OF f fx]
    have "list_all returned (emitted m s)"
      using m1(4) Inr by (simp add: raised_of_def faithful_returned)
    then have "faithful (raised_of out) (emitted m s @ emitted (f x) s1)"
      using f1(4) by (rule faithful_append)
    moreover have "trace (fst s') = trace (fst s) @ emitted m s @ emitted (f x) s1"
      using m1(2) f1(2) by simp
    moreover have "list_all P (emitted m s @ emitted (f x) s1)"
      using m1(3) f1(3) by simp
    ultimately show ?thesis
      using m1(1) f1(1) by auto
  qed
qed

lemma disciplined_if:
  "disciplined P a \<Longrightarrow> disciplined P b \<Longrightarrow> disciplined P (if c then a else b)"
  by simp

lemmas disciplined_intros =
  disciplined_bind disciplined_return disciplined_raise disciplined_get disciplined_modify
  disciplined_if

section \<open>The operations of EigenmodeSim are disciplined\<close>

lemma disciplined_call_method:
  assumes "\<And>ev. on_object [m] ev \<Longrightarrow> P ev"
  shows "disciplined P (call_method env r m a k)"
  by (cases r)
     (auto simp: call_method_def on_object_def intro!: disciplined_intros disciplined_call assms)

lemma disciplined_py_add_str:
  assumes "\<And>ev. on_object [''__add__''] ev \<Longrightarrow> P ev"
  shows "disciplined P (py_add_str env v s)"
  by (cases v)
     (auto simp: py_add_str_def on_object_def intro!: disciplined_intros disciplined_call assms)

lemma disciplined_py_truthy:
  assumes "\<And>ev. on_object [''__bool__''] ev \<Longrightarrow> P ev"
  shows "disciplined P (py_truthy env v)"
  by (cases v)
     (auto simp: py_truthy_def on_object_def intro!: disciplined_intros disciplined_call assms
           split: pyval.split)

lemma disciplined_py_iter:
  assumes "\<And>ev. on_object [''__iter__''] ev \<Longrightarrow> P ev"
  shows "disciplined P (py_iter env v)"
  by (cases v)
     (auto simp: py_iter_def on_object_def intro!: disciplined_intros disciplined_call assms
           split: pyval.split)

lemma disciplined_unpack2:
  assumes "\<And>ev. on_object [''__iter__''] ev \<Longrightarrow> P ev"
  shows "disciplined P (unpack2 env v)"
  unfolding unpack2_def
  by (auto intro!: disciplined_intros disciplined_py_iter assms split: list.split)

lemma disciplined_py_mapping:
  assumes "\<And>ev. on_object [''keys''] ev \<Longrightarrow> P ev"
  shows "disciplined P (py_mapping env v)"
  by (cases v)
     (auto simp: py_mapping_def on_object_def intro!: disciplined_intros disciplined_call assms
           split: pyval.split)

lemma disciplined_py_getitem_int:
  assumes "\<And>ev. on_object [''__getitem__''] ev \<Longrightarrow> P ev"
  shows "disciplined P (py_getitem_int env v i)"
  by (cases v)
     (auto simp: py_getitem_int_def on_object_def intro!: disciplined_intros disciplined_call assms
           split: option.split)

lemma disciplined_py_index: "disciplined P (py_index xs i)"
  by (auto simp: py_index_def intro!: disciplined_intros split: option.split)

lemma disciplined_iloc_column:
  assumes "\<And>ev. on_object [''iloc'', ''__getitem__''] ev \<Longrightarrow> P ev"
  shows "disciplined P (iloc_column env df k)"
  unfolding iloc_column_def
  by (auto simp: on_object_def intro!: disciplined_intros disciplined_call disciplined_call_method assms
           split: pyval.split)

lemma disciplined_add_subplots:
  assumes "\<And>ev. on_object [''__getitem__'', ''add_subplot''] ev \<Longrightarrow> P ev"
  shows "disciplined P (add_subplots env fig gs is)"
proof (induction "is")
  case Nil
  show ?case by (simp add: disciplined_return)
next
  case (Cons i rest)
  show ?case
    by (auto simp: on_object_def
        intro!: disciplined_intros disciplined_py_getitem_int disciplined_call_method assms Cons.IH)
qed

lemma in_api_object: "on_object ms ev \<Longrightarrow> in_api api ev"
  by (auto simp: in_api_def on_object_def split: target.splits)

lemma disciplined_call_api:
  assumes "t = Renderer \<longrightarrow> m \<in> set api"
  shows "disciplined (in_api api) (call env t m a k)"
  by (rule disciplined_call) (use assms in \<open>simp add: in_api_def\<close>)

lemmas api_intros =
  disciplined_intros disciplined_call_api in_api_object

lemma disciplined_u_render: "disciplined (in_api renderer_api) (u_render env kw)"
  unfolding u_render_def Let_def
  by (auto simp: renderer_api_def spec_renderer_api_def
      intro!: api_intros disciplined_py_add_str
      split: option.split prod.split)

lemma disciplined_setters:
  "disciplined P (convergence_t_setter v)" "disciplined P (convergence_f_setter v)"
  "disciplined P convergence_t" "disciplined P convergence_f"
  by (simp_all add: convergence_t_setter_def convergence_f_setter_def
      convergence_t_def convergence_f_def disciplined_modify disciplined_get)

lemma disciplined_u_analyze: "disciplined (in_api renderer_api) (u_analyze env)"
  unfolding u_analyze_def
  by (auto simp: renderer_api_def spec_renderer_api_def
      intro!: api_intros disciplined_py_mapping disciplined_unpack2 disciplined_setters
      split: option.split prod.split)

lemma disciplined_run_sim:
  "disciplined (in_api renderer_api) (run_sim env a b c d e f g)"
  unfolding run_sim_def
  by (auto intro!: api_intros disciplined_py_truthy disciplined_u_render disciplined_u_analyze)

lemma disciplined_recompute_convergences:
  "disciplined (in_api renderer_api) (recompute_convergences env v)"
  unfolding recompute_convergences_def
  by (auto simp: renderer_api_def spec_renderer_api_def
      intro!: api_intros disciplined_unpack2 disciplined_setters
      split: prod.split)

lemma disciplined_plot_convergences:
  "disciplined (in_api renderer_api) (plot_convergences env a b c d)"
  unfolding plot_convergences_def
  by (auto intro!: api_intros disciplined_setters disciplined_add_subplots
        disciplined_py_index disciplined_call_method disciplined_iloc_column)

lemma disciplined_plot_fields:
  "disciplined (in_api renderer_api) (plot_fields env a b c d)"
  unfolding plot_fields_def
  by (auto simp: renderer_api_def spec_renderer_api_def intro!: api_intros)

lemma disciplined_clear_fields:
  "disciplined (in_api renderer_api) (clear_fields env v)"
  unfolding clear_fields_def
  by (auto simp: renderer_api_def spec_renderer_api_def intro!: api_intros)

lemma disciplined_exec_op: "disciplined (in_api renderer_api) (exec_op env x)"
  by (cases x)
     (simp_all add: disciplined_run_sim disciplined_recompute_convergences
        disciplined_plot_convergences disciplined_plot_fields disciplined_clear_fields
        disciplined_setters disciplined_u_render disciplined_u_analyze)

section \<open>Running an operation that returns\<close>

lemma bind_get: "py_bind (py_get g) f (w, self) = f (g self) (w, self)"
  by (simp add: py_bind_def py_get_def)

lemma bind_modify: "py_bind (py_modify g) f (w, self) = f PNone (w, g self)"
  by (simp add: py_bind_def py_modify_def)

lemma modify_apply: "py_modify g (w, self) = (Inr PNone, w, g self)"
  by (simp add: py_modify_def)

lemma get_apply: "py_get g (w, self) = (Inr (g self), w, self)"
  by (simp add: py_get_def)

lemma return_apply: "py_return x s = (Inr x, s)"
  by (simp add: py_return_def)

lemma raise_apply: "py_raise e s = (Inl e, s)"
  by (simp add: py_raise_def)

lemma bind_return: "py_bind (py_return x) f s = f x s"
  by (simp add: py_bind_def py_return_def)

lemma bind_raise: "py_bind (py_raise e) f s = (Inl e, s)"
  by (simp add: py_bind_def py_raise_def)

lemmas run_simps =
  bind_get bind_modify modify_apply get_apply return_apply raise_apply bind_return bind_raise

lemma bind_InrE:
  assumes "py_bind m f s = (Inr v, s')"
  obtains x s1 where "m s = (Inr x, s1)" and "f x s1 = (Inr v, s')"
proof -
  obtain out s1 where ms: "m s = (out, s1)"
    by (metis surj_pair)
  with assms show ?thesis
    by (cases out) (auto simp: py_bind_def intro: that)
qed

lemma bind_call_InrE:
  assumes "py_bind (call env t m a k) f (w, self) = (Inr v, s')"
  obtains r where "env (trace w) t m a k = Inr r"
    and "f r (w\<lparr>trace := trace w @
             [\<lparr>ev_target = t, ev_method = m, ev_args = a, ev_kwargs = k, ev_outcome = Inr r\<rparr>]\<rparr>,
             self) = (Inr v, s')"
  using assms
  by (cases "env (trace w) t m a k") (auto simp: py_bind_def call_def Let_def)

lemma quietD:
  assumes "quiet m" and "m (w, self) = (out, w', self')"
  obtains new where "self' = self" and "default_setup w' = default_setup w"
    and "trace w' = trace w @ new" and "list_all off_renderer new"
proof -
  from assms(1) have
    "snd (snd (m (w, self))) = self \<and>
     default_setup (fst (snd (m (w, self)))) = default_setup w \<and>
     (\<exists>new. trace (fst (snd (m (w, self)))) = trace w @ new \<and> list_all off_renderer new)"
    unfolding quiet_def by blast
  with assms(2) show ?thesis
    by (auto intro: that)
qed

lemma bind_quiet_InrE:
  assumes "py_bind m f (w, self) = (Inr v, s')" and "quiet m"
  obtains x w1 new where "m (w, self) = (Inr x, w1, self)"
    and "default_setup w1 = default_setup w"
    and "trace w1 = trace w @ new"
    and "list_all off_renderer new"
    and "f x (w1, self) = (Inr v, s')"
proof -
  from assms(1) obtain x s1 where ms: "m (w, self) = (Inr x, s1)" and fx: "f x s1 = (Inr v, s')"
    by (rule bind_InrE)
  obtain w1 self1 where s1: "s1 = (w1, self1)"
    by (cases s1)
  from assms(2) ms[unfolded s1] obtain new where "self1 = self"
    and "default_setup w1 = default_setup w" and "trace w1 = trace w @ new"
    and "list_all off_renderer new"
    by (rule quietD)
  with ms fx s1 show ?thesis
    by (intro that[of x w1 new]) simp_all
qed

lemma quietI:
  assumes "\<And>w self out w' self'. m (w, self) = (out, w', self') \<Longrightarrow>
             self' = self \<and> default_setup w' = default_setup w \<and>
             (\<exists>new. trace w' = trace w @ new \<and> list_all off_renderer new)"
  shows "quiet m"
  unfolding quiet_def
proof (intro allI)
  fix w self
  obtain out w' self' where ms: "m (w, self) = (out, w', self')"
    by (metis surj_pair)
  from assms[OF ms] show
    "snd (snd (m (w, self))) = self \<and>
     default_setup (fst (snd (m (w, self)))) = default_setup w \<and>
     (\<exists>new. trace (fst (snd (m (w, self)))) = trace w @ new \<and> list_all off_renderer new)"
    by (simp add: ms)
qed

lemma quiet_return: "quiet (py_return x)"
  by (rule quietI) (auto simp: py_return_def)

lemma quiet_raise: "quiet (py_raise e)"
  by (rule quietI) (auto simp: py_raise_def)

lemma quiet_call: "t \<noteq> Renderer \<Longrightarrow> quiet (call env t m a k)"
  by (rule quietI) (auto simp: call_def Let_def off_renderer_def)

lemma quiet_bind:
  assumes "quiet m" and "\<And>x. quiet (f x)"
  shows "quiet (py_bind m f)"
proof (rule quietI)
  fix w self out w' self'
  assume run: "py_bind m f (w, self) = (out, w', self')"
  obtain o1 w1 self1 where ms: "m (w, self) = (o1, w1, self1)"
    by (metis surj_pair)
  from assms(1) ms obtain n1 where m1: "self1 = self" "default_setup w1 = default_setup w"
    "trace w1 = trace w @ n1" "list_all off_renderer n1"
    by (rule quietD)
  show "self' = self \<and> default_setup w' = default_setup w \<and>
        (\<exists>new. trace w' = trace w @ new \<and> list_all off_renderer new)"
  proof (cases o1)
    case (Inl e)
    with ms run m1 show ?thesis
      by (auto simp: py_bind_def)
  next
    case (Inr x)
    with ms run have fx: "f x (w1, self1) = (out, w', self')"
      by (simp add: py_bind_def)
    from assms(2)[of x] fx obtain n2 where "self' = self1" "default_setup w' = default_setup w1"
      "trace w' = trace w1 @ n2" "list_all off_renderer n2"
      by (rule quietD)
    with m1 show ?thesis
      by simp
  qed
qed

lemmas quiet_intros = quiet_bind quiet_return quiet_raise quiet_call

lemma quiet_py_add_str: "quiet (py_add_str env v s)"
  by (cases v) (auto simp: py_add_str_def intro!: quiet_intros)

lemma quiet_py_truthy: "quiet (py_truthy env v)"
  by (cases v) (auto simp: py_truthy_def intro!: quiet_intros split: pyval.split)

lemma quiet_py_iter: "quiet (py_iter env v)"
  by (cases v) (auto simp: py_iter_def intro!: quiet_intros split: pyval.split)

lemma quiet_unpack2: "quiet (unpack2 env v)"
  unfolding unpack2_def by (auto intro!: quiet_intros quiet_py_iter split: list.split)

lemma quiet_py_mapping: "quiet (py_mapping env v)"
  by (cases v) (auto simp: py_mapping_def intro!: quiet_intros split: pyval.split)

lemma quiet_sim_kwargs:
  "quiet (case map_of st ''sim'' of None \<Rightarrow> py_return [] | Some v \<Rightarrow> py_mapping env v)"
  by (auto intro!: quiet_intros quiet_py_mapping split: option.split)

lemma renderer_calls_Nil [simp]: "renderer_calls [] = []"
  by (simp add: renderer_calls_def)

lemma renderer_calls_append [simp]:
  "renderer_calls (xs @ ys) = renderer_calls xs @ renderer_calls ys"
  by (simp add: renderer_calls_def)

lemma renderer_calls_off [simp]: "list_all off_renderer new \<Longrightarrow> renderer_calls new = []"
  by (induction new) (auto simp: renderer_calls_def off_renderer_def)

lemma renderer_calls_Cons [simp]:
  "renderer_calls (\<lparr>ev_target = t, ev_method = m, ev_args = a, ev_kwargs = k, ev_outcome = r\<rparr> # evs) =
     (if t = Renderer then (m, r) # renderer_calls evs else renderer_calls evs)"
  by (simp add: renderer_calls_def)

lemma render_success:
  assumes "u_render env kw (w, self) = (Inr d, w', self')"
  shows "self' = self \<and> default_setup w' = default_setup w \<and>
         (\<exists>new. trace w' = trace w @ new \<and>
               renderer_calls new = [(''execute_design'', Inr d)])"
  using assms unfolding u_render_def
  apply (simp add: Let_def split_def run_simps)
  apply (erule bind_quiet_InrE, rule quiet_py_add_str)
  apply (simp add: run_simps)
  apply (erule bind_quiet_InrE, rule quiet_py_add_str)
  apply (simp split: if_splits add: call_def Let_def run_simps)
  apply auto
  done

lemma unpack2_pair: "unpack2 env (PTuple [a, b]) s = (Inr (a, b), s)"
  by (simp add: unpack2_def py_iter_def run_simps)

lemma analyze_success:
  assumes "u_analyze env (w, self) = (Inr x, w', self')"
  shows "default_setup w' = default_setup w \<and>
         (\<exists>new sn a g. trace w' = trace w @ new \<and>
               renderer_calls new =
                 [(''initialize_eigenmode'', Inr sn), (''analyze_setup'', Inr a),
                  (''get_convergences'', Inr g)] \<and>
               setup_name self' = sn \<and>
               (\<forall>ct cf. g = PTuple [ct, cf] \<longrightarrow>
                   u_convergence_t self' = ct \<and> u_convergence_f self' = cf))"
  using assms unfolding u_analyze_def
  apply (simp add: run_simps)
  apply (erule bind_quiet_InrE, rule quiet_sim_kwargs)
  apply (erule bind_call_InrE)
  apply (simp add: run_simps)
  apply (erule bind_call_InrE)
  apply (erule bind_call_InrE)
  apply (erule bind_quiet_InrE, rule quiet_unpack2)
  apply (auto simp: convergence_t_setter_def convergence_f_setter_def run_simps unpack2_pair)
  done

lemma bind_render_InrE:
  assumes "py_bind (u_render env kw) f (w, self) = (Inr v, s')"
  obtains d w1 new where "default_setup w1 = default_setup w"
    and "trace w1 = trace w @ new"
    and "renderer_calls new = [(''execute_design'', Inr d)]"
    and "f d (w1, self) = (Inr v, s')"
proof -
  from assms obtain d s1 where ms: "u_render env kw (w, self) = (Inr d, s1)"
    and fx: "f d s1 = (Inr v, s')"
    by (rule bind_InrE)
  obtain w1 self1 where s1: "s1 = (w1, self1)"
    by (cases s1)
  from render_success[OF ms[unfolded s1]] fx s1 show ?thesis
    by (auto intro: that)
qed

lemma bind_analyze_InrE:
  assumes "py_bind (u_analyze env) f (w, self) = (Inr v, s')"
  obtains x w1 self1 new sn a g where "default_setup w1 = default_setup w"
    and "trace w1 = trace w @ new"
    and "renderer_calls new =
           [(''initialize_eigenmode'', Inr sn), (''analyze_setup'', Inr a),
            (''get_convergences'', Inr g)]"
    and "setup_name self1 = sn"
    and "\<forall>ct cf. g = PTuple [ct, cf] \<longrightarrow> u_convergence_t self1 = ct \<and> u_convergence_f self1 = cf"
    and "f x (w1, self1) = (Inr v, s')"
proof -
  from assms obtain x s1 where ms: "u_analyze env (w, self) = (Inr x, s1)"
    and fx: "f x s1 = (Inr v, s')"
    by (rule bind_InrE)
  obtain w1 self1 where s1: "s1 = (w1, self1)"
    by (cases s1)
  from analyze_success[OF ms[unfolded s1]] fx s1 show ?thesis
    by (auto intro: that)
qed

lemma quiet_initialize:
  "quiet (if \<not> b then call env Inherited ''_initialize_renderer'' [] [] else py_return PNone)"
  by (auto intro!: quiet_intros)

lemma run_sim_success:
  assumes "run_sim env nm components open_terminations port_list jj_to_port ignored_jjs
             box_plus_buffer (w, self) = (Inr v, w', self')"
  shows "\<exists>new d sn a g. trace w' = trace w @ new \<and>
           renderer_calls new =
             [(''execute_design'', Inr d), (''initialize_eigenmode'', Inr sn),
              (''analyze_setup'', Inr a), (''get_convergences'', Inr g)] \<and>
           v = PTuple [d, sn] \<and> setup_name self' = sn \<and>
           (\<forall>ct cf. g = PTuple [ct, cf] \<longrightarrow>
               u_convergence_t self' = ct \<and> u_convergence_f self' = cf)"
  using assms unfolding run_sim_def
  apply -
  apply (erule bind_call_InrE)
  apply (erule bind_quiet_InrE, rule quiet_py_truthy)
  apply (erule bind_quiet_InrE, rule quiet_initialize)
  apply (erule bind_render_InrE)
  apply (erule bind_analyze_InrE)
  apply (auto simp: run_simps)
  done

lemma map_of_py_del: "map_of (py_del k d) k' = (if k' = k then None else map_of d k')"
  by (induction d) (auto simp: py_del_def)

lemma disciplined_at:
  assumes "disciplined P m"
  shows "default_setup (fst (snd (m s))) = default_setup (fst s)"
    and "trace (fst (snd (m s))) = trace (fst s) @ emitted m s"
    and "list_all P (emitted m s)"
    and "faithful (raised_of (fst (m s))) (emitted m s)"
  using assms unfolding disciplined_def by blast+

lemma faithful_nth:
  assumes "faithful r new" and "i < length new" and "ev_outcome (new ! i) = Inl e"
  shows "r = Some e \<and> Suc i = length new"
proof (cases "Suc i < length new")
  case True
  then have "butlast new ! i = new ! i" and "i < length (butlast new)"
    by (simp_all add: nth_butlast)
  with assms(1) have "returned (new ! i)"
    unfolding faithful_def list_all_length by metis
  with assms(3) show ?thesis
    by (simp add: returned_def)
next
  case False
  with assms(2) have i: "Suc i = length new"
    by simp
  then have ne: "new \<noteq> []"
    by auto
  then have "last new = new ! (length new - 1)"
    by (rule last_conv_nth)
  with i have "last new = new ! i"
    by (metis diff_Suc_1)
  with assms(1,3) i ne show ?thesis
    by (simp add: faithful_def)
qed

lemma exec_op_keeps_defaults:
  "default_setup (fst (snd (exec_op env x s))) = default_setup (fst s)"
  by (rule disciplined_at[OF disciplined_exec_op])

lemma exec_stmt_keeps_defaults:
  assumes "\<And>d rn w. default_setup (snd (base_init d rn w)) = default_setup w"
  shows "default_setup (fst (exec_stmt base_init env st (w, self))) = default_setup w"
proof (cases st)
  case (New d rn)
  obtain out w1 where b: "base_init d (case rn of None \<Rightarrow> ''hfss'' | Some r \<Rightarrow> r) w = (out, w1)"
    by (metis surj_pair)
  with assms[of d "case rn of None \<Rightarrow> ''hfss'' | Some r \<Rightarrow> r" w]
  have "default_setup w1 = default_setup w"
    by simp
  with New b show ?thesis
    by (cases out) (simp_all add: EigenmodeSim_init_def)
next
  case (Do x)
  then show ?thesis
    using exec_op_keeps_defaults[of env x "(w, self)"] by simp
qed

lemma render_event_object: "on_object ms ev \<Longrightarrow> render_event kw ev"
  by (auto simp: render_event_def on_object_def split: target.splits)

lemma disciplined_render_event: "disciplined (render_event kw) (u_render env kw)"
  unfolding u_render_def Let_def
  by (auto simp: render_event_def forwarded_def
      intro!: disciplined_intros disciplined_call disciplined_py_add_str[OF render_event_object]
      split: option.split prod.split)

section \<open>The operations of QTreeView_Base\<close>

lemma method_in_object: "on_object ms ev \<Longrightarrow> set ms \<subseteq> set ms' \<Longrightarrow> method_in ms' ev"
  by (auto simp: method_in_def on_object_def)

lemma disciplined_call_in:
  assumes "m \<in> set ms"
  shows "disciplined (method_in ms) (call env t m a k)"
  by (rule disciplined_call) (use assms in \<open>simp add: method_in_def\<close>)

lemma disciplined_py_range:
  assumes "\<And>ev. on_object [''__index__''] ev \<Longrightarrow> P ev"
  shows "disciplined P (py_range env v)"
  by (cases v)
     (auto simp: py_range_def on_object_def intro!: disciplined_intros disciplined_call assms
           split: pyval.split)

lemma disciplined_py_gt_int:
  assumes "\<And>ev. on_object [''__gt__'', ''__bool__''] ev \<Longrightarrow> P ev"
  shows "disciplined P (py_gt_int env v m)"
  by (cases v)
     (auto simp: py_gt_int_def on_object_def
           intro!: disciplined_intros disciplined_call disciplined_py_truthy assms)

lemma disciplined_resize_columns:
  "disciplined (method_in (width_methods @ read_methods)) (resize_columns env max_width cols)"
proof (induction cols)
  case Nil
  show ?case by (simp add: disciplined_return)
next
  case (Cons i rest)
  then show ?case
    unfolding width_methods_def read_methods_def
    by (auto intro!: disciplined_intros disciplined_call_in disciplined_py_gt_int
        elim!: method_in_object)
qed

lemma disciplined_autoresize_columns:
  "disciplined (method_in (width_methods @ read_methods)) (autoresize_columns env max_width)"
  unfolding autoresize_columns_def
  by (auto simp: width_methods_def read_methods_def
      intro!: disciplined_intros disciplined_call_in disciplined_call_method disciplined_py_range
        disciplined_resize_columns[unfolded width_methods_def read_methods_def, simplified]
      elim!: method_in_object)

lemma disciplined_style_me: "disciplined (method_in display_methods) (style_me env)"
  unfolding style_me_def
  by (auto simp: display_methods_def
      intro!: disciplined_intros disciplined_call_in disciplined_call_method
      elim!: method_in_object)

lemma disciplined_tree_init:
  "disciplined (method_in init_methods) (QTreeView_Base_init env parent)"
  unfolding QTreeView_Base_init_def
  by (auto simp: init_methods_def
      intro!: disciplined_intros disciplined_call_in disciplined_call_method
      elim!: method_in_object)

lemma bind_call_method_InrE:
  assumes "py_bind (call_method env recv m a k) f (w, self) = (Inr v, s')"
  obtains r where "env (trace w) (Object recv) m a k = Inr r"
    and "f r (w\<lparr>trace := trace w @
             [\<lparr>ev_target = Object recv, ev_method = m, ev_args = a, ev_kwargs = k,
               ev_outcome = Inr r\<rparr>]\<rparr>, self) = (Inr v, s')"
  using assms
  by (cases recv; cases "env (trace w) (Object recv) m a k")
     (auto simp: call_method_def py_bind_def call_def Let_def py_raise_def)

lemma calls_of_simps [simp]:
  "calls_of [] = []"
  "calls_of (ev # evs) = (ev_method ev, ev_args ev) # calls_of evs"
  "calls_of (xs @ ys) = calls_of xs @ calls_of ys"
  by (simp_all add: calls_of_def)

lemma tree_init_success:
  assumes "QTreeView_Base_init env parent (w, self) = (Inr v, w', self')"
  shows "\<exists>new. trace w' = trace w @ new \<and>
           calls_of new =
             [(''QTreeView.__init__'', [parent]),
              (''singleShot'', [PInt 200, PMethod ''style_me'']),
              (''expanded'', []),
              (''connect'', [PMethod ''resize_on_expand''])]"
  using assms unfolding QTreeView_Base_init_def
  apply -
  apply (erule bind_call_InrE)+
  apply (erule bind_call_method_InrE)
  apply (auto simp: run_simps)
  done

lemma style_me_success:
  assumes "style_me env (w, self) = (Inr v, w', self')"
  shows "\<exists>new. trace w' = trace w @ new \<and>
           calls_of new =
             [(''header'', []), (''show'', []), (''setAutoScroll'', [PBool False]),
              (''setVerticalScrollMode'', [PObj ''QAbstractItemView.ScrollPerPixel'']),
              (''setHorizontalScrollMode'', [PObj ''QAbstractItemView.ScrollPerPixel'']),
              (''setStyleSheet'', [PStr style_sheet_text])]"
  using assms unfolding style_me_def
  apply -
  apply (erule bind_call_InrE)
  apply (erule bind_call_method_InrE)
  apply (erule bind_call_InrE)+
  apply (auto simp: run_simps)
  done

lemma emitted_success:
  assumes "m (w, self) = (out, w', self')" and "trace w' = trace w @ new"
  shows "emitted m (w, self) = new"
  using assms by (simp add: emitted_def)

section \<open>run_sim\<close>

text \<open>
  C1. Every call of \<^verbatim>\<open>run_sim\<close> that returns has made exactly these calls on the
  renderer, in this order: \<^verbatim>\<open>execute_design\<close>, \<^verbatim>\<open>initialize_eigenmode\<close>,
  \<^verbatim>\<open>analyze_setup\<close>, \<^verbatim>\<open>get_convergences\<close>, each of which returned; the value returned is
  the pair of the design name \<^verbatim>\<open>execute_design\<close> returned and the setup name
  \<^verbatim>\<open>initialize_eigenmode\<close> returned, which is also \<^verbatim>\<open>self.setup_name\<close>; and the two
  tables of the pair \<^verbatim>\<open>get_convergences\<close> returned are what \<^verbatim>\<open>convergence_t\<close> and
  \<^verbatim>\<open>convergence_f\<close> read afterwards.
\<close>

theorem run_sim_sequence:
  assumes "run_sim env nm components open_terminations port_list jj_to_port ignored_jjs
             box_plus_buffer (w, self) = (Inr v, w', self')"
  shows "\<exists>d sn a g.
           renderer_calls (emitted (run_sim env nm components open_terminations port_list
                                      jj_to_port ignored_jjs box_plus_buffer) (w, self)) =
             [(''execute_design'', Inr d), (''initialize_eigenmode'', Inr sn),
              (''analyze_setup'', Inr a), (''get_convergences'', Inr g)] \<and>
           v = PTuple [d, sn] \<and> setup_name self' = sn \<and>
           (\<forall>ct cf. g = PTuple [ct, cf] \<longrightarrow>
               fst (convergence_t (w', self')) = Inr ct \<and>
               fst (convergence_f (w', self')) = Inr cf)"
proof -
  from run_sim_success[OF assms] obtain new d sn a g where
    t: "trace w' = trace w @ new" and
    r: "renderer_calls new =
             [(''execute_design'', Inr d), (''initialize_eigenmode'', Inr sn),
              (''analyze_setup'', Inr a), (''get_convergences'', Inr g)]" and
    v: "v = PTuple [d, sn]" "setup_name self' = sn" and
    c: "\<forall>ct cf. g = PTuple [ct, cf] \<longrightarrow> u_convergence_t self' = ct \<and> u_convergence_f self' = cf"
    by blast
  have "emitted (run_sim env nm components open_terminations port_list
                   jj_to_port ignored_jjs box_plus_buffer) (w, self) = new"
    using assms t by (simp add: emitted_def)
  with r v c show ?thesis
    by (simp add: convergence_t_def convergence_f_def get_apply)
qed

theorem run_sim_sequence_witness:
  "fst (run_sim env_ok (PStr ''q1'') PNone PNone PNone PNone PNone (PBool True)
          (module_loaded, sim0)) = Inr (PTuple [PStr ''q1_hfss'', PStr ''Setup'']) \<and>
   (\<exists>d sn a g.
      renderer_calls (emitted (run_sim env_ok (PStr ''q1'') PNone PNone PNone PNone PNone
                                 (PBool True)) (module_loaded, sim0)) =
        [(''execute_design'', Inr d), (''initialize_eigenmode'', Inr sn),
         (''analyze_setup'', Inr a), (''get_convergences'', Inr g)] \<and>
      PTuple [PStr ''q1_hfss'', PStr ''Setup''] = PTuple [d, sn] \<and>
      setup_name (snd (snd (run_sim env_ok (PStr ''q1'') PNone PNone PNone PNone PNone
                              (PBool True) (module_loaded, sim0)))) = sn \<and>
      (\<forall>ct cf. g = PTuple [ct, cf] \<longrightarrow>
          fst (convergence_t (snd (run_sim env_ok (PStr ''q1'') PNone PNone PNone PNone PNone
                                     (PBool True) (module_loaded, sim0)))) = Inr ct \<and>
          fst (convergence_f (snd (run_sim env_ok (PStr ''q1'') PNone PNone PNone PNone PNone
                                     (PBool True) (module_loaded, sim0)))) = Inr cf))"
proof -
  let ?r = "run_sim env_ok (PStr ''q1'') PNone PNone PNone PNone PNone (PBool True)
              (module_loaded, sim0)"
  have h: "fst ?r = Inr (PTuple [PStr ''q1_hfss'', PStr ''Setup''])"
    by code_simp
  then have "?r = (Inr (PTuple [PStr ''q1_hfss'', PStr ''Setup'']), fst (snd ?r), snd (snd ?r))"
    by (metis prod.collapse)
  from run_sim_sequence[OF this] h show ?thesis
    by simp
qed

section \<open>Exceptions\<close>

text \<open>
  C2. An exception raised by a call an operation makes outside the class (a renderer
  method in \<^verbatim>\<open>run_sim\<close>, \<^verbatim>\<open>recompute_convergences\<close>, \<^verbatim>\<open>plot_fields\<close> or
  \<^verbatim>\<open>clear_fields\<close>, and any other external call of any operation) reaches the caller
  unchanged: the call that raised is the last call the operation made (nothing is retried
  and nothing is done to recover), and the operation ends with that very exception.
\<close>

theorem exceptions_propagate:
  assumes "i < length (emitted (exec_op env x) s)"
    and "ev_outcome (emitted (exec_op env x) s ! i) = Inl e"
  shows "fst (exec_op env x s) = Inl e \<and> Suc i = length (emitted (exec_op env x) s)"
proof -
  have "faithful (raised_of (fst (exec_op env x s))) (emitted (exec_op env x) s)"
    by (rule disciplined_at[OF disciplined_exec_op])
  from faithful_nth[OF this assms] show ?thesis
    by (cases "fst (exec_op env x s)") (simp_all add: raised_of_def)
qed

theorem exceptions_propagate_witness:
  "4 < length (emitted (exec_op env_fail (Run_sim (PStr ''q1'') PNone PNone PNone PNone PNone
                                           (PBool True))) (module_loaded, sim0)) \<and>
   ev_target (emitted (exec_op env_fail (Run_sim (PStr ''q1'') PNone PNone PNone PNone PNone
                                           (PBool True))) (module_loaded, sim0) ! 4) = Renderer \<and>
   ev_method (emitted (exec_op env_fail (Run_sim (PStr ''q1'') PNone PNone PNone PNone PNone
                                           (PBool True))) (module_loaded, sim0) ! 4) = ''analyze_setup'' \<and>
   ev_outcome (emitted (exec_op env_fail (Run_sim (PStr ''q1'') PNone PNone PNone PNone PNone
                                           (PBool True))) (module_loaded, sim0) ! 4) =
     Inl (Raised ''solver'') \<and>
   fst (exec_op env_fail (Run_sim (PStr ''q1'') PNone PNone PNone PNone PNone (PBool True))
          (module_loaded, sim0)) = Inl (Raised ''solver'') \<and>
   Suc 4 = length (emitted (exec_op env_fail (Run_sim (PStr ''q1'') PNone PNone PNone PNone PNone
                                                (PBool True))) (module_loaded, sim0))"
proof -
  let ?m = "exec_op env_fail (Run_sim (PStr ''q1'') PNone PNone PNone PNone PNone (PBool True))"
  have h1: "4 < length (emitted ?m (module_loaded, sim0))"
    by code_simp
  have h2: "ev_outcome (emitted ?m (module_loaded, sim0) ! 4) = Inl (Raised ''solver'')"
    by code_simp
  have h3: "ev_target (emitted ?m (module_loaded, sim0) ! 4) = Renderer"
    by code_simp
  have h4: "ev_method (emitted ?m (module_loaded, sim0) ! 4) = ''analyze_setup''"
    by code_simp
  from exceptions_propagate[OF h1 h2] h1 h2 h3 h4 show ?thesis
    by simp
qed

section \<open>The default setup\<close>

text \<open>
  C3. \<^verbatim>\<open>EigenmodeSim.default_setup['sim']\<close> holds the literal values
  \<^verbatim>\<open>name='Setup'\<close>, \<^verbatim>\<open>min_freq_ghz=1\<close>, \<^verbatim>\<open>n_modes=1\<close>, \<^verbatim>\<open>max_delta_f=0.5\<close>,
  \<^verbatim>\<open>max_passes=10\<close>, \<^verbatim>\<open>min_passes=1\<close>, \<^verbatim>\<open>min_converged=1\<close>, \<^verbatim>\<open>pct_refinement=30\<close>,
  \<^verbatim>\<open>basis_order=1\<close>, \<^verbatim>\<open>vars={'Lj': '10 nH', 'Cj': '0 fF'}\<close> and no other key, and the
  class attribute is the same after an instance has been constructed, for every base-class
  constructor that does not write it.
\<close>

theorem default_setup_values:
  assumes "\<And>d rn w. default_setup (snd (base_init d rn w)) = default_setup w"
  shows "item2 EigenmodeSim_default_setup ''sim'' ''name'' = Some (PStr ''Setup'') \<and>
         item2 EigenmodeSim_default_setup ''sim'' ''min_freq_ghz'' = Some (PInt 1) \<and>
         item2 EigenmodeSim_default_setup ''sim'' ''n_modes'' = Some (PInt 1) \<and>
         item2 EigenmodeSim_default_setup ''sim'' ''max_delta_f'' = Some (PFloat (5 / 10)) \<and>
         item2 EigenmodeSim_default_setup ''sim'' ''max_passes'' = Some (PInt 10) \<and>
         item2 EigenmodeSim_default_setup ''sim'' ''min_passes'' = Some (PInt 1) \<and>
         item2 EigenmodeSim_default_setup ''sim'' ''min_converged'' = Some (PInt 1) \<and>
         item2 EigenmodeSim_default_setup ''sim'' ''pct_refinement'' = Some (PInt 30) \<and>
         item2 EigenmodeSim_default_setup ''sim'' ''basis_order'' = Some (PInt 1) \<and>
         item3 EigenmodeSim_default_setup ''sim'' ''vars'' ''Lj'' = Some (PStr ''10 nH'') \<and>
         item3 EigenmodeSim_default_setup ''sim'' ''vars'' ''Cj'' = Some (PStr ''0 fF'') \<and>
         map fst EigenmodeSim_default_setup = [''sim''] \<and>
         keys2 EigenmodeSim_default_setup ''sim'' =
           [''name'', ''min_freq_ghz'', ''n_modes'', ''max_delta_f'', ''max_passes'',
            ''min_passes'', ''min_converged'', ''pct_refinement'', ''basis_order'', ''vars''] \<and>
         item2 EigenmodeSim_default_setup ''sim'' ''vars'' =
           Some (PDict [(''Lj'', PStr ''10 nH''), (''Cj'', PStr ''0 fF'')]) \<and>
         default_setup module_loaded = EigenmodeSim_default_setup \<and>
         default_setup (snd (EigenmodeSim_init base_init d rn module_loaded)) =
           EigenmodeSim_default_setup"
proof -
  obtain out w1 where b: "base_init d (case rn of None \<Rightarrow> ''hfss'' | Some r \<Rightarrow> r) module_loaded = (out, w1)"
    by (metis surj_pair)
  with assms[of d "case rn of None \<Rightarrow> ''hfss'' | Some r \<Rightarrow> r" module_loaded]
  have "default_setup w1 = default_setup module_loaded"
    by simp
  with b have "default_setup (snd (EigenmodeSim_init base_init d rn module_loaded)) =
           EigenmodeSim_default_setup"
    by (cases out) (simp_all add: EigenmodeSim_init_def module_loaded_def)
  then show ?thesis
    by (simp add: item2_def item3_def keys2_def EigenmodeSim_default_setup_def module_loaded_def)
qed

theorem default_setup_values_witness:
  "(\<forall>d rn w. default_setup (snd (QAnalysisRenderer_init d rn w)) = default_setup w) \<and>
   item2 (default_setup (snd (EigenmodeSim_init QAnalysisRenderer_init \<lparr>name = ''chip''\<rparr> None
            module_loaded))) ''sim'' ''max_passes'' = Some (PInt 10) \<and>
   length (keys2 (default_setup (snd (EigenmodeSim_init QAnalysisRenderer_init \<lparr>name = ''chip''\<rparr>
            (Some ''eigenName'') module_loaded))) ''sim'') = 10"
proof -
  have h: "\<And>d rn w. default_setup (snd (QAnalysisRenderer_init d rn w)) = default_setup w"
    by (simp add: QAnalysisRenderer_init_def)
  from default_setup_values[of QAnalysisRenderer_init, OF h] h show ?thesis
    by simp
qed

text \<open>
  C6. \<^verbatim>\<open>default_setup\<close> is static: whatever statements a caller performs on an instance
  (constructing it, \<^verbatim>\<open>run_sim\<close>, \<^verbatim>\<open>recompute_convergences\<close>, the property setters and
  getters, the plotting methods, \<^verbatim>\<open>clear_fields\<close>), in any number and order and whether
  or not they raise, the class attribute is afterwards what it was, for every base-class
  constructor that does not write it.
\<close>

theorem default_setup_static:
  assumes "\<And>d rn w. default_setup (snd (base_init d rn w)) = default_setup w"
  shows "default_setup (fst (exec_stmts base_init env prog (w, self))) = default_setup w"
proof (induction prog arbitrary: w self)
  case Nil
  show ?case by simp
next
  case (Cons st prog)
  obtain w1 self1 where s1: "exec_stmt base_init env st (w, self) = (w1, self1)"
    by (metis surj_pair)
  have "default_setup (fst (exec_stmt base_init env st (w, self))) = default_setup w"
    by (rule exec_stmt_keeps_defaults[OF assms])
  with s1 have "default_setup w1 = default_setup w"
    by simp
  with Cons.IH[of w1 self1] s1 show ?case
    by simp
qed

theorem default_setup_static_witness:
  "(\<forall>d rn w. default_setup (snd (QAnalysisRenderer_init d rn w)) = default_setup w) \<and>
   default_setup (fst (exec_stmts QAnalysisRenderer_init env_ok
      [New \<lparr>name = ''chip''\<rparr> None,
       Do (Run_sim (PStr ''q1'') PNone PNone PNone PNone PNone (PBool True)),
       Do (Set_convergence_f (PObj ''table'')),
       Do (Recompute_convergences PNone),
       Do (Plot_convergences PNone PNone PNone (PBool True)),
       Do (Plot_fields (PStr ''pad'') (PInt 1) [] []),
       Do (Clear_fields PNone)]
      (module_loaded, sim0))) = EigenmodeSim_default_setup"
proof -
  have h: "\<And>d rn w. default_setup (snd (QAnalysisRenderer_init d rn w)) = default_setup w"
    by (simp add: QAnalysisRenderer_init_def)
  have "default_setup module_loaded = EigenmodeSim_default_setup"
    by (simp add: module_loaded_def)
  with default_setup_static[of QAnalysisRenderer_init env_ok _ module_loaded sim0, OF h]
  have "default_setup (fst (exec_stmts QAnalysisRenderer_init env_ok
      [New \<lparr>name = ''chip''\<rparr> None,
       Do (Run_sim (PStr ''q1'') PNone PNone PNone PNone PNone (PBool True)),
       Do (Set_convergence_f (PObj ''table'')),
       Do (Recompute_convergences PNone),
       Do (Plot_convergences PNone PNone PNone (PBool True)),
       Do (Plot_fields (PStr ''pad'') (PInt 1) [] []),
       Do (Clear_fields PNone)]
      (module_loaded, sim0))) = EigenmodeSim_default_setup"
    by (rule trans)
  with h show ?thesis
    by blast
qed

section \<open>Construction\<close>

text \<open>For every constructor of the base class: \<^verbatim>\<open>__init__\<close> raises what the base
  constructor raises, and otherwise sets the three attributes of its own to \<^verbatim>\<open>None\<close>.\<close>

lemma EigenmodeSim_init_fields:
  "(base_init d (case rn of None \<Rightarrow> ''hfss'' | Some r \<Rightarrow> r) w = (Inl e, w1) \<longrightarrow>
      EigenmodeSim_init base_init d rn w = (Inl e, w1)) \<and>
   (base_init d (case rn of None \<Rightarrow> ''hfss'' | Some r \<Rightarrow> r) w = (Inr b, w1) \<longrightarrow>
      (\<exists>obj. EigenmodeSim_init base_init d rn w = (Inr obj, w1) \<and>
             setup_name obj = PNone \<and> u_convergence_t obj = PNone \<and>
             u_convergence_f obj = PNone))"
  by (simp add: EigenmodeSim_init_def)

text \<open>
  C7. Instantiating \<^verbatim>\<open>EigenmodeSim\<close> does not raise: for every design, both
  \<^verbatim>\<open>EigenmodeSim(design)\<close> and \<^verbatim>\<open>EigenmodeSim(design, renderer_name)\<close> return an
  instance, on which \<^verbatim>\<open>setup_name\<close>, \<^verbatim>\<open>convergence_t\<close> and \<^verbatim>\<open>convergence_f\<close> are
  \<^verbatim>\<open>None\<close>. The base-class constructor is the one modelled from the spec.
\<close>

theorem instantiation_does_not_raise:
  "\<exists>obj. EigenmodeSim_init QAnalysisRenderer_init d rn w = (Inr obj, w) \<and>
         design obj = d \<and>
         renderer_name obj = (case rn of None \<Rightarrow> ''hfss'' | Some r \<Rightarrow> r) \<and>
         setup_name obj = PNone \<and>
         fst (convergence_t (w, obj)) = Inr PNone \<and>
         fst (convergence_f (w, obj)) = Inr PNone"
  by (simp add: EigenmodeSim_init_def QAnalysisRenderer_init_def convergence_t_def
      convergence_f_def get_apply)

section \<open>The renderer's methods\<close>

text \<open>
  C4, as the claim states it, fails: \<^verbatim>\<open>clear_fields\<close> calls the renderer's
  \<^verbatim>\<open>clear_fields\<close>, which is not among the six methods the spec lists.
\<close>

theorem clear_fields_outside_spec_api:
  "\<not> list_all (in_api spec_renderer_api)
       (emitted (exec_op env_ok (Clear_fields PNone)) (module_loaded, sim0))"
  by code_simp

text \<open>
  C4, amended. Every call an operation of \<^verbatim>\<open>EigenmodeSim\<close> makes on the renderer is to
  one of seven methods: \<^verbatim>\<open>execute_design\<close>, \<^verbatim>\<open>initialize_eigenmode\<close>,
  \<^verbatim>\<open>analyze_setup\<close>, \<^verbatim>\<open>get_convergences\<close>, \<^verbatim>\<open>set_mode\<close>, \<^verbatim>\<open>plot_fields\<close> and
  \<^verbatim>\<open>clear_fields\<close>.
\<close>

theorem renderer_methods_called:
  "list_all (in_api renderer_api) (emitted (exec_op env x) s)"
proof -
  have "disciplined (in_api renderer_api) (exec_op env x)"
    by (rule disciplined_exec_op)
  then show ?thesis
    by (rule disciplined_at)
qed

theorem renderer_methods_called_witness:
  "list_all (in_api renderer_api)
     (emitted (exec_op env_ok (Clear_fields PNone)) (module_loaded, sim0)) \<and>
   map ev_method (filter (\<lambda>ev. ev_target ev = Renderer)
     (emitted (exec_op env_ok (Clear_fields PNone)) (module_loaded, sim0))) = [''clear_fields''] \<and>
   map ev_method (filter (\<lambda>ev. ev_target ev = Renderer)
     (emitted (exec_op env_ok (Plot_fields (PStr ''pad'') (PInt 1) [] [])) (module_loaded, sim0))) =
     [''set_mode'', ''plot_fields'']"
proof -
  have "map ev_method (filter (\<lambda>ev. ev_target ev = Renderer)
     (emitted (exec_op env_ok (Clear_fields PNone)) (module_loaded, sim0))) = [''clear_fields'']"
    by code_simp
  moreover have "map ev_method (filter (\<lambda>ev. ev_target ev = Renderer)
     (emitted (exec_op env_ok (Plot_fields (PStr ''pad'') (PInt 1) [] [])) (module_loaded, sim0))) =
     [''set_mode'', ''plot_fields'']"
    by code_simp
  ultimately show ?thesis
    using renderer_methods_called[of env_ok "Clear_fields PNone" "(module_loaded, sim0)"]
    by simp
qed

section \<open>_render\<close>

text \<open>
  C9. \<^verbatim>\<open>_render\<close> passes to \<^verbatim>\<open>execute_design\<close> the name \<^verbatim>\<open>name + "_" + renderer_name\<close>
  when a string is given as \<^verbatim>\<open>name\<close>, and \<^verbatim>\<open>design.name + "_" + renderer_name\<close> when
  \<^verbatim>\<open>name\<close> is absent or \<^verbatim>\<open>None\<close>; a \<^verbatim>\<open>name\<close> that is not \<^verbatim>\<open>None\<close> is removed from
  the keywords and not forwarded; \<^verbatim>\<open>execute_design\<close> is the only call on the renderer;
  and the value returned is the one \<^verbatim>\<open>execute_design\<close> returns. (The keywords are taken
  not to hold \<^verbatim>\<open>solution_type\<close>, which \<^verbatim>\<open>_render\<close> passes itself.)
\<close>

theorem render_design_name:
  assumes "map_of kw ''solution_type'' = None"
  shows "(map_of kw ''name'' = Some (PStr n) \<longrightarrow>
            u_render env kw (w, self) =
              call env Renderer ''execute_design'' [PStr (n @ ''_'' @ renderer_name self)]
                ((''solution_type'', PStr ''eigenmode'') # py_del ''name'' kw) (w, self) \<and>
            map_of (py_del ''name'' kw) ''name'' = None) \<and>
         (map_of kw ''name'' = None \<or> map_of kw ''name'' = Some PNone \<longrightarrow>
            u_render env kw (w, self) =
              call env Renderer ''execute_design''
                [PStr (name (design self) @ ''_'' @ renderer_name self)]
                ((''solution_type'', PStr ''eigenmode'') # kw) (w, self)) \<and>
         fst (call env Renderer ''execute_design'' a k (w, self)) =
           env (trace w) Renderer ''execute_design'' a k \<and>
         emitted (call env Renderer ''execute_design'' a k) (w, self) =
           [\<lparr>ev_target = Renderer, ev_method = ''execute_design'', ev_args = a, ev_kwargs = k,
             ev_outcome = env (trace w) Renderer ''execute_design'' a k\<rparr>] \<and>
         list_all (render_event kw) (emitted (u_render env kw) (w, self))"
proof -
  have "list_all (render_event kw) (emitted (u_render env kw) (w, self))"
    by (rule disciplined_at[OF disciplined_render_event])
  with assms show ?thesis
    by (auto simp: u_render_def py_add_str_def map_of_py_del call_def Let_def emitted_def
        run_simps)
qed

theorem render_design_name_witness:
  "map_of [(''name'', PStr ''q1''), (''selection'', PNone)] ''solution_type'' = None \<and>
   map_of [(''name'', PStr ''q1''), (''selection'', PNone)] ''name'' = Some (PStr ''q1'') \<and>
   u_render env_ok [(''name'', PStr ''q1''), (''selection'', PNone)] (module_loaded, sim0) =
     call env_ok Renderer ''execute_design'' [PStr ''q1_hfss'']
       [(''solution_type'', PStr ''eigenmode''), (''selection'', PNone)] (module_loaded, sim0) \<and>
   fst (u_render env_ok [(''name'', PStr ''q1''), (''selection'', PNone)] (module_loaded, sim0)) =
     Inr (PStr ''q1_hfss'') \<and>
   map_of [(''name'', PNone), (''selection'', PNone)] ''solution_type'' = None \<and>
   u_render env_ok [(''name'', PNone), (''selection'', PNone)] (module_loaded, sim0) =
     call env_ok Renderer ''execute_design'' [PStr ''chip_hfss'']
       [(''solution_type'', PStr ''eigenmode''), (''name'', PNone), (''selection'', PNone)]
       (module_loaded, sim0)"
proof -
  have h1: "map_of [(''name'', PStr ''q1''), (''selection'', PNone)] ''solution_type'' = None"
    by simp
  have h2: "map_of [(''name'', PStr ''q1''), (''selection'', PNone)] ''name'' = Some (PStr ''q1'')"
    by simp
  have h3: "map_of [(''name'', PNone), (''selection'', PNone)] ''solution_type'' = None"
    by simp
  have h4: "map_of [(''name'', PNone), (''selection'', PNone)] ''name'' = Some PNone"
    by simp
  have r: "fst (u_render env_ok [(''name'', PStr ''q1''), (''selection'', PNone)]
                 (module_loaded, sim0)) = Inr (PStr ''q1_hfss'')"
    by code_simp
  from render_design_name[OF h1, of "''q1''" env_ok module_loaded sim0]
    render_design_name[OF h3, of "''q1''" env_ok module_loaded sim0] h1 h2 h3 h4 r
  show ?thesis
    by (simp add: py_del_def sim0_def)
qed

section \<open>plot_convergences\<close>

text \<open>
  C10. With a \<^verbatim>\<open>fig\<close> that is not \<^verbatim>\<open>None\<close>, \<^verbatim>\<open>plot_convergences\<close> plots nothing: it
  makes no external call at all, returns \<^verbatim>\<open>None\<close> and leaves the state as it was; every
  figure, axis and plotting call is under the \<^verbatim>\<open>fig is None\<close> branch. The \<^verbatim>\<open>_display\<close>
  flag changes nothing in either branch.
\<close>

theorem plot_convergences_with_figure:
  "(fig \<noteq> PNone \<longrightarrow>
      plot_convergences env conv_t conv_f fig display (w, self) = (Inr PNone, w, self) \<and>
      emitted (plot_convergences env conv_t conv_f fig display) (w, self) = []) \<and>
   plot_convergences env conv_t conv_f fig display =
     plot_convergences env conv_t conv_f fig display'"
  by (simp add: plot_convergences_def emitted_def convergence_t_def convergence_f_def
      run_simps)

theorem plot_convergences_with_figure_witness:
  "PObj ''fig'' \<noteq> PNone \<and>
   plot_convergences env_ok (PObj ''t'') (PObj ''f'') (PObj ''fig'') (PBool True)
     (module_loaded, sim0) = (Inr PNone, module_loaded, sim0) \<and>
   emitted (plot_convergences env_ok (PObj ''t'') (PObj ''f'') (PObj ''fig'') (PBool True))
     (module_loaded, sim0) = [] \<and>
   length (emitted (plot_convergences env_ok (PObj ''t'') (PObj ''f'') PNone (PBool True))
     (module_loaded, sim0)) = 22"
proof -
  have h: "PObj ''fig'' \<noteq> PNone"
    by simp
  have c: "length (emitted (plot_convergences env_ok (PObj ''t'') (PObj ''f'') PNone (PBool True))
     (module_loaded, sim0)) = 22"
    by code_simp
  from plot_convergences_with_figure[of "PObj ''fig''" env_ok "PObj ''t''" "PObj ''f''"
      "PBool True" module_loaded sim0] h c
  show ?thesis
    by simp
qed

section \<open>The convergence properties\<close>

text \<open>
  C8. The property accessors form a round trip: after \<^verbatim>\<open>convergence_f = v\<close>
  (respectively \<^verbatim>\<open>convergence_t = v\<close>) reading the same property returns \<open>v\<close>, for every
  value \<open>v\<close>; assigning one table leaves the reading of the other as it was, and a setter
  changes its own private attribute and nothing else.
\<close>

theorem convergence_roundtrip:
  "fst (py_bind (convergence_f_setter v) (\<lambda>_. convergence_f) (w, self)) = Inr v \<and>
   fst (py_bind (convergence_t_setter v) (\<lambda>_. convergence_t) (w, self)) = Inr v \<and>
   fst (py_bind (convergence_f_setter v) (\<lambda>_. convergence_t) (w, self)) =
     fst (convergence_t (w, self)) \<and>
   fst (py_bind (convergence_t_setter v) (\<lambda>_. convergence_f) (w, self)) =
     fst (convergence_f (w, self)) \<and>
   snd (convergence_f_setter v (w, self)) = (w, self\<lparr>u_convergence_f := v\<rparr>) \<and>
   snd (convergence_t_setter v (w, self)) = (w, self\<lparr>u_convergence_t := v\<rparr>)"
  by (simp add: py_bind_def convergence_f_setter_def convergence_t_setter_def
      convergence_f_def convergence_t_def py_modify_def py_get_def)

section \<open>The tree view\<close>

text \<open>
  C5, as the claim states it, fails: the timer callback \<^verbatim>\<open>style_me\<close> changes no column
  width, and the column widths are changed outside it, by \<^verbatim>\<open>resize_on_expand\<close> (the slot
  of the \<^verbatim>\<open>expanded\<close> signal) and by \<^verbatim>\<open>autoresize_columns\<close>.
\<close>

theorem columns_resized_outside_timer:
  "filter (method_in width_methods) (emitted (style_me env_ok) (module_loaded, ())) = [] \<and>
   calls_of (emitted (invoke_bound env_ok (PMethod ''resize_on_expand'')) (module_loaded, ())) =
     [(''resizeColumnToContents'', [PInt 0])] \<and>
   calls_of (filter (method_in width_methods)
      (emitted (autoresize_columns env_ok 200) (module_loaded, ()))) =
     [(''resizeColumnToContents'', [PInt 0]), (''setColumnWidth'', [PInt 0, PInt 200]),
      (''resizeColumnToContents'', [PInt 1]), (''setColumnWidth'', [PInt 1, PInt 200])]"
  by code_simp

text \<open>
  C5, amended. The constructor of \<^verbatim>\<open>QTreeView_Base\<close> schedules a one-shot timer of 200 ms
  for \<^verbatim>\<open>style_me\<close> and connects the \<^verbatim>\<open>expanded\<close> signal to \<^verbatim>\<open>resize_on_expand\<close>. The
  timer callback makes the display changes (header shown, auto-scroll off, both scroll modes
  per pixel, the style sheet) and nothing else. The column widths are changed by
  \<^verbatim>\<open>autoresize_columns\<close> and by \<^verbatim>\<open>resize_on_expand\<close>, which beside that only read
  (\<^verbatim>\<open>model\<close>, \<^verbatim>\<open>columnCount\<close>, \<^verbatim>\<open>columnWidth\<close>). No method calls anything that writes
  the model.
\<close>

theorem tree_view_effects:
  "(fst (QTreeView_Base_init env parent s) = Inr v \<longrightarrow>
      calls_of (emitted (QTreeView_Base_init env parent) s) =
        [(''QTreeView.__init__'', [parent]),
         (''singleShot'', [PInt 200, PMethod ''style_me'']),
         (''expanded'', []),
         (''connect'', [PMethod ''resize_on_expand''])]) \<and>
   invoke_bound env (PMethod ''style_me'') = style_me env \<and>
   invoke_bound env (PMethod ''resize_on_expand'') = resize_on_expand env \<and>
   (fst (style_me env s) = Inr v \<longrightarrow>
      calls_of (emitted (style_me env) s) =
        [(''header'', []), (''show'', []), (''setAutoScroll'', [PBool False]),
         (''setVerticalScrollMode'', [PObj ''QAbstractItemView.ScrollPerPixel'']),
         (''setHorizontalScrollMode'', [PObj ''QAbstractItemView.ScrollPerPixel'']),
         (''setStyleSheet'', [PStr style_sheet_text])]) \<and>
   list_all (method_in init_methods) (emitted (QTreeView_Base_init env parent) s) \<and>
   list_all (method_in display_methods) (emitted (style_me env) s) \<and>
   list_all (method_in (width_methods @ read_methods))
     (emitted (autoresize_columns env max_width) s) \<and>
   calls_of (emitted (resize_on_expand env) s) = [(''resizeColumnToContents'', [PInt 0])]"
proof -
  obtain w self where s: "s = (w, self)"
    by (cases s)
  have a: "fst (QTreeView_Base_init env parent s) = Inr v \<longrightarrow>
      calls_of (emitted (QTreeView_Base_init env parent) s) =
        [(''QTreeView.__init__'', [parent]),
         (''singleShot'', [PInt 200, PMethod ''style_me'']),
         (''expanded'', []),
         (''connect'', [PMethod ''resize_on_expand''])]"
  proof
    assume "fst (QTreeView_Base_init env parent s) = Inr v"
    then obtain w' self' where r: "QTreeView_Base_init env parent (w, self) = (Inr v, w', self')"
      unfolding s by (metis prod.collapse)
    from tree_init_success[OF r] obtain new where "trace w' = trace w @ new"
      and c: "calls_of new =
        [(''QTreeView.__init__'', [parent]),
         (''singleShot'', [PInt 200, PMethod ''style_me'']),
         (''expanded'', []),
         (''connect'', [PMethod ''resize_on_expand''])]"
      by blast
    with r have "emitted (QTreeView_Base_init env parent) (w, self) = new"
      by (intro emitted_success)
    with c show "calls_of (emitted (QTreeView_Base_init env parent) s) =
        [(''QTreeView.__init__'', [parent]),
         (''singleShot'', [PInt 200, PMethod ''style_me'']),
         (''expanded'', []),
         (''connect'', [PMethod ''resize_on_expand''])]"
      by (simp add: s)
  qed
  have b: "fst (style_me env s) = Inr v \<longrightarrow>
      calls_of (emitted (style_me env) s) =
        [(''header'', []), (''show'', []), (''setAutoScroll'', [PBool False]),
         (''setVerticalScrollMode'', [PObj ''QAbstractItemView.ScrollPerPixel'']),
         (''setHorizontalScrollMode'', [PObj ''QAbstractItemView.ScrollPerPixel'']),
         (''setStyleSheet'', [PStr style_sheet_text])]"
  proof
    assume "fst (style_me env s) = Inr v"
    then obtain w' self' where r: "style_me env (w, self) = (Inr v, w', self')"
      unfolding s by (metis prod.collapse)
    from style_me_success[OF r] obtain new where "trace w' = trace w @ new"
      and c: "calls_of new =
        [(''header'', []), (''show'', []), (''setAutoScroll'', [PBool False]),
         (''setVerticalScrollMode'', [PObj ''QAbstractItemView.ScrollPerPixel'']),
         (''setHorizontalScrollMode'', [PObj ''QAbstractItemView.ScrollPerPixel'']),
         (''setStyleSheet'', [PStr style_sheet_text])]"
      by blast
    with r have "emitted (style_me env) (w, self) = new"
      by (intro emitted_success)
    with c show "calls_of (emitted (style_me env) s) =
        [(''header'', []), (''show'', []), (''setAutoScroll'', [PBool False]),
         (''setVerticalScrollMode'', [PObj ''QAbstractItemView.ScrollPerPixel'']),
         (''setHorizontalScrollMode'', [PObj ''QAbstractItemView.ScrollPerPixel'']),
         (''setStyleSheet'', [PStr style_sheet_text])]"
      by (simp add: s)
  qed
  have c: "invoke_bound env (PMethod ''style_me'') = style_me env"
    "invoke_bound env (PMethod ''resize_on_expand'') = resize_on_expand env"
    by (simp_all add: invoke_bound_def)
  have d: "list_all (method_in init_methods) (emitted (QTreeView_Base_init env parent) s)"
    "list_all (method_in display_methods) (emitted (style_me env) s)"
    "list_all (method_in (width_methods @ read_methods))
       (emitted (autoresize_columns env max_width) s)"
    by (rule disciplined_at[OF disciplined_tree_init] disciplined_at[OF disciplined_style_me]
        disciplined_at[OF disciplined_autoresize_columns])+
  have e: "calls_of (emitted (resize_on_expand env) s) = [(''resizeColumnToContents'', [PInt 0])]"
    by (cases "env (trace w) Inherited ''resizeColumnToContents'' [PInt 0] []")
       (simp_all add: s resize_on_expand_def emitted_def py_bind_def call_def Let_def
          py_return_def)
  from a b c d e show ?thesis
    by simp
qed

theorem tree_view_effects_witness:
  "fst (QTreeView_Base_init env_ok PNone (module_loaded, ())) = Inr PNone \<and>
   calls_of (emitted (QTreeView_Base_init env_ok PNone) (module_loaded, ())) =
     [(''QTreeView.__init__'', [PNone]),
      (''singleShot'', [PInt 200, PMethod ''style_me'']),
      (''expanded'', []),
      (''connect'', [PMethod ''resize_on_expand''])] \<and>
   fst (style_me env_ok (module_loaded, ())) = Inr PNone \<and>
   calls_of (emitted (invoke_bound env_ok (PMethod ''style_me'')) (module_loaded, ())) =
     [(''header'', []), (''show'', []), (''setAutoScroll'', [PBool False]),
      (''setVerticalScrollMode'', [PObj ''QAbstractItemView.ScrollPerPixel'']),
      (''setHorizontalScrollMode'', [PObj ''QAbstractItemView.ScrollPerPixel'']),
      (''setStyleSheet'', [PStr style_sheet_text])] \<and>
   list_all (method_in (width_methods @ read_methods))
     (emitted (autoresize_columns env_ok 200) (module_loaded, ())) \<and>
   length (emitted (autoresize_columns env_ok 200) (module_loaded, ())) = 8"
proof -
  have h1: "fst (QTreeView_Base_init env_ok PNone (module_loaded, ())) = Inr PNone"
    by code_simp
  have h2: "fst (style_me env_ok (module_loaded, ())) = Inr PNone"
    by code_simp
  have h3: "length (emitted (autoresize_columns env_ok 200) (module_loaded, ())) = 8"
    by code_simp
  from tree_view_effects[of env_ok PNone "(module_loaded, ())" PNone 200] h1 h2 h3
  show ?thesis
    by simp
qed

end
